theory Spec2Isabelle
  imports Complex_Main
begin

section \<open>The document object model the service runs on\<close>

text \<open>
  The service \<^verbatim>\<open>pdfService.ts\<close> drives the external library pdf-lib. The part of the
  library the service touches is modelled here: a document is the list of its pages plus
  the three metadata entries the service writes; a page carries the content it was parsed
  with (opaque, of type \<open>'c\<close>; \<open>None\<close> on a page the service creates blank), its size, its \<^verbatim>\<open>Rotate\<close> entry and the drawing operations
  the service has appended to it. JavaScript numbers are idealised as reals (angles of
  page rotation as integers, in degrees), JavaScript strings as \<open>string\<close>.
\<close>

datatype color = RGB real real real

definition rgb :: "real \<Rightarrow> real \<Rightarrow> real \<Rightarrow> color" where
  "rgb r g b = RGB r g b"

datatype font = Helvetica | HelveticaBold

record image =
  img_width :: real
  img_height :: real

text \<open>\<^verbatim>\<open>image.scale(k)\<close>: the intrinsic dimensions times \<open>k\<close>.\<close>

definition scale :: "image \<Rightarrow> real \<Rightarrow> real \<times> real" where
  "scale img k = (img_width img * k, img_height img * k)"

text \<open>
  One drawing call on a page, with the options the service passes. An option the service
  leaves out is \<open>None\<close>.
\<close>

datatype draw_op =
    DrawText (dt_text: string) (dt_x: real) (dt_y: real) (dt_size: real) (dt_font: font)
      (dt_color: color) (dt_opacity: "real option") (dt_rotate: "real option")
      (dt_lineHeight: "real option")
  | DrawImage (di_image: image) (di_x: real) (di_y: real) (di_width: real) (di_height: real)
      (di_opacity: "real option")
  | DrawRectangle (dr_x: real) (dr_y: real) (dr_width: real) (dr_height: real)
      (dr_color: color) (dr_borderColor: "color option") (dr_borderWidth: "real option")
      (dr_opacity: "real option")
  | DrawCircle (dc_x: real) (dc_y: real) (dc_size: real) (dc_color: color)
  | DrawSvgPath (dp_points: "(real \<times> real) list") (dp_color: color) (dp_borderWidth: real)

record 'c page =
  content :: "'c option"
  page_width :: real
  page_height :: real
  Rotate :: int
  draws :: "draw_op list"

record 'c document =
  pages :: "'c page list"
  Title :: "string option"
  Author :: "string option"
  Creator :: "string option"

text \<open>\<^verbatim>\<open>PDFDocument.create()\<close>.\<close>

definition create :: "'c document" where
  "create = \<lparr>pages = [], Title = None, Author = None, Creator = None\<rparr>"

text \<open>
  What the library computes from bytes and from its font tables is a parameter of the
  model: \<open>load\<close> parses a buffer (\<open>None\<close> when \<^verbatim>\<open>PDFDocument.load\<close> throws),
  \<open>serialize\<close> is the writer that turns a document, as it stands, into bytes, \<open>embedPng\<close>
  and \<open>embedJpg\<close> decode an image (\<open>None\<close> when they throw), and the two font functions
  are the metrics of a standard font.
\<close>

record ('b, 'c) pdflib =
  load :: "'b \<Rightarrow> 'c page list option"
  serialize :: "'c document \<Rightarrow> 'b"
  embedPng :: "'b \<Rightarrow> image option"
  embedJpg :: "'b \<Rightarrow> image option"
  widthOfTextAtSize :: "font \<Rightarrow> string \<Rightarrow> real \<Rightarrow> real"
  heightAtSize :: "font \<Rightarrow> real \<Rightarrow> real"

datatype error = ParseError | CopyError | RotationError | TypeError | MergeError

text \<open>\<^verbatim>\<open>doc.getPageIndices()\<close>.\<close>

definition getPageIndices :: "'c page list \<Rightarrow> nat list" where
  "getPageIndices src = [0..<length src]"

text \<open>
  \<^verbatim>\<open>dest.copyPages(src, indices)\<close>: the pages of \<open>src\<close> at the given positions, in the
  order of the indices; the library throws when a position is not a page of \<open>src\<close>.
\<close>

definition copyPages :: "'c page list \<Rightarrow> nat list \<Rightarrow> error + 'c page list" where
  "copyPages src indices =
     (if list_all (\<lambda>i. i < length src) indices then Inr (map (\<lambda>i. src ! i) indices)
      else Inl CopyError)"

text \<open>\<^verbatim>\<open>doc.addPage(page)\<close> appends the page.\<close>

definition addPage :: "'c document \<Rightarrow> 'c page \<Rightarrow> 'c document" where
  "addPage doc p = doc\<lparr>pages := pages doc @ [p]\<rparr>"

text \<open>
  \<^verbatim>\<open>doc.save()\<close>, called with no options as the service does: the library first adds a
  blank page of its default size (A4) to a document that has no page, then writes the
  document.
\<close>

definition default_page :: "'c page" where
  "default_page =
     \<lparr>content = None, page_width = 595.28, page_height = 841.89, Rotate = 0, draws = []\<rparr>"

definition save :: "('b, 'c) pdflib \<Rightarrow> 'c document \<Rightarrow> 'b" where
  "save lib doc = serialize lib (if pages doc = [] then addPage doc default_page else doc)"

text \<open>
  \<^verbatim>\<open>page.setRotation(degrees(a))\<close> stores the angle as it is given; the library accepts
  multiples of 90 only and throws otherwise.
\<close>

definition setRotation :: "'c page \<Rightarrow> int \<Rightarrow> error + 'c page" where
  "setRotation p a = (if a mod 90 = 0 then Inr (p\<lparr>Rotate := a\<rparr>) else Inl RotationError)"

text \<open>
  A drawing call appends its operation to the page. The calls are taken to succeed: the
  library rejects an opacity outside \<open>[0, 1]\<close>, which the configuration type rules out
  (\<^verbatim>\<open>// 0 to 1\<close>).
\<close>

definition draw :: "'c page \<Rightarrow> draw_op \<Rightarrow> 'c page" where
  "draw p op = p\<lparr>draws := draws p @ [op]\<rparr>"

section \<open>Types of the service\<close>

text \<open>A browser \<^verbatim>\<open>File\<close>: its name, its declared MIME type and its bytes.\<close>

record 'b File =
  name :: string
  mime_type :: string
  bytes :: 'b

record 'b FileWithId =
  file_id :: string
  file_of :: "'b File"

record PdfMetadata =
  title :: string
  author :: string

record 'b WatermarkConfig =
  diagonal :: bool
  bottom :: bool
  top_wm :: bool
  crossed :: bool
  textColor :: string
  textOpacity :: real
  logoFile :: "'b File option"
  logoOpacity :: real
  logoScale :: real

record EditorPage =
  page_id :: string
  fileId :: string
  originalPageIndex :: nat
  rotation :: int
  thumbnailUrl :: string

section \<open>Constants\<close>

definition DEFAULT_WATERMARK_TEXT :: string where
  "DEFAULT_WATERMARK_TEXT = ''vtunotesforall''"

definition STRICT_WATERMARK_COLOR :: color where
  "STRICT_WATERMARK_COLOR = rgb 0.5 0.5 0.5"

definition WATERMARK_ANGLE :: real where
  "WATERMARK_ANGLE = 60"

definition DEFAULT_MERGE_CONFIG :: "'b WatermarkConfig" where
  "DEFAULT_MERGE_CONFIG =
     \<lparr>diagonal = True, bottom = True, top_wm = False, crossed = False,
      textColor = ''#808080'', textOpacity = 0.2, logoFile = None,
      logoOpacity = 0.5, logoScale = 0.5\<rparr>"

section \<open>hexToRgb\<close>

text \<open>
  The regular expression \<^verbatim>\<open>/^#?([a-f\d]{2})([a-f\d]{2})([a-f\d]{2})$/i\<close>: an optional
  \<^verbatim>\<open>#\<close>, then exactly six hexadecimal digits of either case, and nothing else. \<open>hex_exec\<close>
  is \<^verbatim>\<open>exec\<close>: the three captured groups, or \<open>None\<close> for \<^verbatim>\<open>null\<close>.
\<close>

definition isHexDigit :: "char \<Rightarrow> bool" where
  "isHexDigit c = (c \<in> set ''0123456789abcdefABCDEF'')"

definition hex_exec :: "string \<Rightarrow> (string \<times> string \<times> string) option" where
  "hex_exec hex =
     (let body = (case hex of [] \<Rightarrow> hex | c # rest \<Rightarrow> if c = CHR ''#'' then rest else hex)
      in if length body = 6 \<and> list_all isHexDigit body
         then Some (take 2 body, take 2 (drop 2 body), drop 4 body)
         else None)"

text \<open>\<^verbatim>\<open>parseInt(s, 16)\<close> on a string of hexadecimal digits.\<close>

definition hexDigitValue :: "char \<Rightarrow> nat" where
  "hexDigitValue c =
     (case map_of (zip ''0123456789abcdefABCDEF''
                       [0, 1, 2, 3, 4, 5, 6, 7, 8, 9, 10, 11, 12, 13, 14, 15,
                        10, 11, 12, 13, 14, 15]) c of
        Some v \<Rightarrow> v | None \<Rightarrow> 0)"

definition parseInt16 :: "string \<Rightarrow> nat" where
  "parseInt16 s = foldl (\<lambda>acc c. 16 * acc + hexDigitValue c) 0 s"

definition hexToRgb :: "string \<Rightarrow> color" where
  "hexToRgb hex =
     (case hex_exec hex of
        Some (r, g, b) \<Rightarrow>
          rgb (real (parseInt16 r) / 255) (real (parseInt16 g) / 255) (real (parseInt16 b) / 255)
      | None \<Rightarrow> STRICT_WATERMARK_COLOR)"

section \<open>applyWatermarkToPage\<close>

text \<open>The helper \<^verbatim>\<open>drawRotatedWatermark\<close>, closed over the page size, colour and opacity.\<close>

definition drawRotatedWatermark ::
  "('b, 'c) pdflib \<Rightarrow> real \<Rightarrow> real \<Rightarrow> font \<Rightarrow> color \<Rightarrow> real \<Rightarrow> real \<Rightarrow> draw_op" where
  "drawRotatedWatermark lib width height fnt col opacity angle =
     (let fontSize = min width height * 0.11;
          textWidth = widthOfTextAtSize lib fnt DEFAULT_WATERMARK_TEXT fontSize;
          textHeight = heightAtSize lib fnt fontSize;
          rad = (angle * pi) / 180;
          c = cos rad;
          s = sin rad;
          pCx = width / 2;
          pCy = height / 2;
          x = pCx - (textWidth / 2 * c - textHeight / 2 * s);
          y = pCy - (textWidth / 2 * s + textHeight / 2 * c)
      in DrawText DEFAULT_WATERMARK_TEXT x y fontSize fnt col (Some opacity) (Some angle) None)"

definition applyWatermarkToPage ::
  "('b, 'c) pdflib \<Rightarrow> 'c page \<Rightarrow> font \<Rightarrow> 'b WatermarkConfig \<Rightarrow> image option \<Rightarrow> 'c page" where
  "applyWatermarkToPage lib pg fnt config logoImage =
     (let width = page_width pg;
          height = page_height pg;
          col = hexToRgb (textColor config);
          opacity = textOpacity config;
          pg1 = (case logoImage of
                   None \<Rightarrow> pg
                 | Some img \<Rightarrow>
                     (let logoDims = scale img 1;
                          scaleFactor = (width * logoScale config) / fst logoDims;
                          scaledWidth = fst logoDims * scaleFactor;
                          scaledHeight = snd logoDims * scaleFactor
                      in draw pg (DrawImage img ((width / 2) - (scaledWidth / 2))
                                    ((height / 2) - (scaledHeight / 2))
                                    scaledWidth scaledHeight (Some (logoOpacity config)))));
          pg2 = (if diagonal config
                 then draw pg1 (drawRotatedWatermark lib width height fnt col opacity
                                  WATERMARK_ANGLE)
                 else pg1);
          pg3 = (if crossed config
                 then draw pg2 (drawRotatedWatermark lib width height fnt col opacity
                                  (- WATERMARK_ANGLE))
                 else pg2);
          pg4 = (if bottom config
                 then (let footerSize = 10;
                           footerWidth = widthOfTextAtSize lib fnt DEFAULT_WATERMARK_TEXT footerSize
                       in draw pg3 (DrawText DEFAULT_WATERMARK_TEXT
                                     ((width / 2) - (footerWidth / 2)) 15 footerSize fnt col
                                     (Some (min (opacity + 0.4) 1)) None None))
                 else pg3);
          pg5 = (if top_wm config
                 then (let headerSize = 10;
                           headerWidth = widthOfTextAtSize lib fnt DEFAULT_WATERMARK_TEXT headerSize
                       in draw pg4 (DrawText DEFAULT_WATERMARK_TEXT
                                     ((width / 2) - (headerWidth / 2)) (height - 25) headerSize fnt
                                     col (Some (min (opacity + 0.4) 1)) None None))
                 else pg4)
      in pg5)"

section \<open>String helpers\<close>

text \<open>\<^verbatim>\<open>s.endsWith(suffix)\<close> and \<^verbatim>\<open>s.toLowerCase()\<close> (on the ASCII letters).\<close>

definition endsWith :: "string \<Rightarrow> string \<Rightarrow> bool" where
  "endsWith s suf = (length suf \<le> length s \<and> drop (length s - length suf) s = suf)"

definition toLowerCase :: "string \<Rightarrow> string" where
  "toLowerCase s =
     map (\<lambda>c. case map_of (zip ''ABCDEFGHIJKLMNOPQRSTUVWXYZ'' ''abcdefghijklmnopqrstuvwxyz'') c of
                 Some l \<Rightarrow> l | None \<Rightarrow> c) s"

section \<open>generateDefaultCoverPage\<close>

definition drawDiamond :: "real \<Rightarrow> real \<Rightarrow> real \<Rightarrow> color \<Rightarrow> draw_op" where
  "drawDiamond cx cy r col = DrawSvgPath [(cx, cy + r), (cx + r, cy), (cx, cy - r), (cx - r, cy)] col 0"

text \<open>
  The logo step of the cover (lines 168 to 193): the drawing it adds and the new value
  of \<^verbatim>\<open>currentY\<close>. A logo that fails to embed is caught and only moves \<^verbatim>\<open>currentY\<close>.
\<close>

definition cover_logo ::
  "('b, 'c) pdflib \<Rightarrow> 'b File option \<Rightarrow> real \<Rightarrow> real \<Rightarrow> draw_op list \<times> real" where
  "cover_logo lib logo width currentY =
     (case logo of
        None \<Rightarrow> ([], currentY - 80)
      | Some lf \<Rightarrow>
          (case (if mime_type lf = ''image/jpeg'' \<or> endsWith (name lf) ''.jpg''
                 then embedJpg lib (bytes lf) else embedPng lib (bytes lf)) of
             None \<Rightarrow> ([], currentY - 50)
           | Some logoImage \<Rightarrow>
               (let logoDims = scale logoImage 0.2
                in ([DrawImage logoImage ((width / 2) - (fst logoDims / 2))
                       (currentY - snd logoDims) (fst logoDims) (snd logoDims) None],
                    currentY - (snd logoDims + 20)))))"

text \<open>One row of the pill section (the body of \<^verbatim>\<open>pills.forEach\<close>).\<close>

definition cover_pill_row ::
  "font \<Rightarrow> real \<Rightarrow> real \<Rightarrow> real \<Rightarrow> real \<Rightarrow> real \<Rightarrow> nat \<times> string \<times> string \<Rightarrow> draw_op list" where
  "cover_pill_row fontBold cardWidth cardGap pillStartY pillHeight pillGapY ir =
     (let rowIndex = fst ir;
          y = pillStartY - (real rowIndex * (pillHeight + pillGapY));
          midY = y - (pillHeight / 2);
          rightPillX = 50 + cardWidth + cardGap
      in [DrawRectangle 50 (y - pillHeight) cardWidth pillHeight (rgb 0.96 0.98 1) None None None,
          drawDiamond 62 (midY + 15) 3 (rgb 0.1 0.1 0.2),
          drawDiamond 62 (y - 17) 3 (rgb 0.1 0.1 0.2),
          DrawText (fst (snd ir)) 72 (y - 20) 9 fontBold (rgb 0.1 0.1 0.2) None None None,
          DrawRectangle rightPillX (y - pillHeight) cardWidth pillHeight (rgb 0.96 0.98 1)
            None None None,
          drawDiamond (rightPillX + 12) (y - 17) 3 (rgb 0.1 0.1 0.2),
          DrawText (snd (snd ir)) (rightPillX + 22) (y - 20) 9 fontBold (rgb 0.1 0.1 0.2)
            None None None])"

text \<open>All drawing calls of the cover, in the order the function makes them.\<close>

definition cover_draws :: "('b, 'c) pdflib \<Rightarrow> 'b File option \<Rightarrow> real \<Rightarrow> real \<Rightarrow> draw_op list" where
  "cover_draws lib logo width height =
     (let fontBold = HelveticaBold;
          fontReg = Helvetica;
          darkBlue = rgb 0.04 0.09 0.25;
          brandCyan = rgb 0.0 0.7 0.8;
          cardBlue = rgb 0.1 0.2 0.5;
          headerHeight = height * 0.35;
          logoStep = cover_logo lib logo width (height - 80);
          currentY = snd logoStep;
          titleText = ''vtunotesforall.in'';
          titleSize = 42;
          titleWidth = widthOfTextAtSize lib fontBold titleText titleSize;
          subtitle = ''EXCELLENCE IN ENGINEERING RESOURCES'';
          subSize = 10;
          subWidth = widthOfTextAtSize lib fontBold subtitle subSize;
          cardY = height - headerHeight - 30;
          cardGap = 20;
          cardWidth = (width - 100 - cardGap) / 2;
          cardHeight = 140;
          listStartY = cardY - 55;
          listLineHeight = 16;
          items = [''Placement Stories & Help'', ''Professional Project Inquiry'',
                   ''Expert Career Guidance''];
          pillStartY = cardY - cardHeight - 30;
          pillHeight = 30;
          pillGapY = 15;
          pills = [(''SGPA Calculator'', ''Previous Year Papers''),
                   (''Model Question Papers'', ''Detailed QP Solutions''),
                   (''Placement Stories'', ''Semester Blueprints'')];
          hubY = pillStartY - (3 * (pillHeight + pillGapY)) - 20;
          hubHeight = 150;
          iconY = hubY - 90;
          iconSize = 30;
          centerX = width / 2;
          footerText = ''vtunotesforall.in   |   EMPOWERING ENGINEERS EVERY SEMESTER'';
          fWidth = widthOfTextAtSize lib fontBold footerText 8
      in [DrawRectangle 0 (height - headerHeight) width headerHeight darkBlue None None None,
          DrawRectangle 0 (height - (headerHeight * 0.8)) width (headerHeight * 0.8)
            (rgb 0.05 0.12 0.35) None None (Some 0.5)]
         @ fst logoStep
         @ [DrawText titleText ((width / 2) - (titleWidth / 2)) currentY titleSize fontBold
              (rgb 1 1 1) None None None,
            DrawText subtitle ((width / 2) - (subWidth / 2)) (currentY - 25) subSize fontBold
              brandCyan None None None,
            DrawRectangle 50 (cardY - cardHeight) cardWidth cardHeight (rgb 1 1 1)
              (Some (rgb 0.9 0.9 0.9)) (Some 1) None,
            DrawText ''About Us'' 70 (cardY - 30) 14 fontBold darkBlue None None None,
            DrawText (''A specialized digital ecosystem for VTU'' @ [CHR 0x0A]
                      @ ''engineers. We provide syllabus-aligned,'' @ [CHR 0x0A]
                      @ ''exam-centric resources to drive academic'' @ [CHR 0x0A]
                      @ ''mastery and career success.'')
              70 (cardY - 55) 9 fontReg (rgb 0.4 0.4 0.4) None None (Some 12),
            DrawRectangle (50 + cardWidth + cardGap) (cardY - cardHeight) cardWidth cardHeight
              cardBlue None None None,
            DrawText ''Projects & Career'' (50 + cardWidth + cardGap + 20) (cardY - 30) 14
              fontBold brandCyan None None None]
         @ concat (map (\<lambda>(i, item).
              (let itemY = listStartY - (real i * listLineHeight)
               in [DrawCircle (50 + cardWidth + cardGap + 20) (itemY + 3) 2 (rgb 1 1 1),
                   DrawText item (50 + cardWidth + cardGap + 30) itemY 9 fontReg (rgb 1 1 1)
                     None None None]))
              (enumerate 0 items))
         @ concat (map (cover_pill_row fontBold cardWidth cardGap pillStartY pillHeight pillGapY)
              (enumerate 0 pills))
         @ [DrawRectangle 50 (hubY - hubHeight) (width - 100) hubHeight (rgb 0.95 0.96 0.98)
              None None None,
            DrawText ''Community Hub'' 70 (hubY - 30) 14 fontBold (rgb 0.1 0.1 0.1)
              None None None,
            DrawText ''Join thousands of VTU students in our digital circles.'' 70 (hubY - 45) 9
              fontReg (rgb 0.5 0.5 0.5) None None None,
            DrawRectangle 100 iconY iconSize iconSize (rgb 0 0.6 0.5) None None None,
            DrawText ''W'' 108 (iconY + 8) 14 fontBold (rgb 1 1 1) None None None,
            DrawText ''Updates'' 95 (iconY - 15) 9 fontBold (rgb 0 0 0) None None None,
            DrawRectangle (centerX - 15) iconY iconSize iconSize (rgb 0 0.6 0.5) None None None,
            DrawText ''W'' (centerX - 7) (iconY + 8) 14 fontBold (rgb 1 1 1) None None None,
            DrawText ''Forum'' (centerX - 15) (iconY - 15) 9 fontBold (rgb 0 0 0) None None None,
            DrawRectangle (width - 130) iconY (iconSize + 10) iconSize (rgb 0.9 0.1 0.1)
              None None None,
            DrawText ''nammaVTUbros'' (width - 155) (iconY - 15) 9 fontBold (rgb 0 0 0)
              None None None,
            DrawRectangle 0 0 width 60 darkBlue None None None,
            DrawText footerText ((width / 2) - (fWidth / 2)) 25 8 fontBold (rgb 1 1 1)
              None None None])"

text \<open>
  \<^verbatim>\<open>doc.addPage([595.28, 841.89])\<close> appends one blank page of that size; every later call
  of the function draws on that page object, so the document ends with the page carrying
  all the drawing.
\<close>

definition generateDefaultCoverPage ::
  "('b, 'c) pdflib \<Rightarrow> 'c document \<Rightarrow> 'b File option \<Rightarrow> 'c document" where
  "generateDefaultCoverPage lib doc logo =
     (let pg = \<lparr>content = None, page_width = 595.28, page_height = 841.89, Rotate = 0,
                draws = []\<rparr>
      in addPage doc (pg\<lparr>draws := cover_draws lib logo (page_width pg) (page_height pg)\<rparr>))"

section \<open>mergeAndWatermarkPdfs\<close>

text \<open>The metadata block shared by the merge and the batch entry points.\<close>

definition setMetadata :: "'c document \<Rightarrow> PdfMetadata option \<Rightarrow> 'c document" where
  "setMetadata doc metadata =
     (case metadata of
        None \<Rightarrow> doc
      | Some m \<Rightarrow>
          (let d1 = (if title m \<noteq> [] then doc\<lparr>Title := Some (title m)\<rparr> else doc);
               d2 = (if author m \<noteq> [] then d1\<lparr>Author := Some (author m)\<rparr> else d1)
           in d2\<lparr>Creator := Some ''VTU Notes Merging System''\<rparr>))"

text \<open>
  The loop over the content files (lines 403 to 416). The state is the document under
  construction and the values passed to \<^verbatim>\<open>onProgress\<close> so far; \<open>i\<close> is the loop index
  of the first file of the remaining list.
\<close>

fun merge_content_loop ::
  "('b, 'c) pdflib \<Rightarrow> font \<Rightarrow> nat \<Rightarrow> nat \<Rightarrow> 'b File list \<Rightarrow> 'c document \<times> real list
     \<Rightarrow> error + ('c document \<times> real list)" where
  "merge_content_loop lib fnt totalFiles i [] st = Inr st"
| "merge_content_loop lib fnt totalFiles i (f # fs) st =
     (case load lib (bytes f) of
        None \<Rightarrow> Inl ParseError
      | Some contentDoc \<Rightarrow>
          (case copyPages contentDoc (getPageIndices contentDoc) of
             Inl e \<Rightarrow> Inl e
           | Inr copiedContentPages \<Rightarrow>
               (let mergedPdf = foldl (\<lambda>d pg. addPage d
                                  (applyWatermarkToPage lib pg fnt DEFAULT_MERGE_CONFIG None))
                                  (fst st) copiedContentPages;
                    progressChunk = 80 / real totalFiles
                in merge_content_loop lib fnt totalFiles (i + 1) fs
                     (mergedPdf, snd st @ [15 + (real (i + 1) * progressChunk)]))))"

text \<open>The cover step (lines 386 to 397).\<close>

definition merge_cover ::
  "('b, 'c) pdflib \<Rightarrow> 'b File option \<Rightarrow> 'b File option \<Rightarrow> bool \<Rightarrow> 'c document \<times> real list
     \<Rightarrow> error + ('c document \<times> real list)" where
  "merge_cover lib coverFile defaultCoverLogo useDefaultCover st =
     (case coverFile of
        Some cf \<Rightarrow>
          (case load lib (bytes cf) of
             None \<Rightarrow> Inl ParseError
           | Some coverDoc \<Rightarrow>
               (case copyPages coverDoc (getPageIndices coverDoc) of
                  Inl e \<Rightarrow> Inl e
                | Inr copiedCoverPages \<Rightarrow>
                    Inr (foldl addPage (fst st) copiedCoverPages, snd st @ [5])))
      | None \<Rightarrow>
          (if useDefaultCover
           then Inr (generateDefaultCoverPage lib (fst st) defaultCoverLogo, snd st @ [5])
           else Inr st))"

text \<open>
  The body of the \<^verbatim>\<open>try\<close> block up to the call of \<^verbatim>\<open>save\<close>: the document that is
  serialised, and the progress reported until then.
\<close>

definition mergeAndWatermarkPdfs_doc ::
  "('b, 'c) pdflib \<Rightarrow> 'b File option \<Rightarrow> 'b File list \<Rightarrow> PdfMetadata option \<Rightarrow> 'b File option
     \<Rightarrow> bool \<Rightarrow> error + ('c document \<times> real list)" where
  "mergeAndWatermarkPdfs_doc lib coverFile contentFiles metadata defaultCoverLogo useDefaultCover =
     (let mergedPdf = setMetadata create metadata;
          helveticaFont = HelveticaBold
      in case merge_cover lib coverFile defaultCoverLogo useDefaultCover (mergedPdf, []) of
           Inl e \<Rightarrow> Inl e
         | Inr st \<Rightarrow>
             (case merge_content_loop lib helveticaFont (length contentFiles) 0 contentFiles
                     (fst st, snd st @ [15]) of
                Inl e \<Rightarrow> Inl e
              | Inr st' \<Rightarrow> Inr (fst st', snd st' @ [95])))"

text \<open>
  The function itself: every error of the body is caught and replaced by the one
  \<^verbatim>\<open>Error("Failed to process PDFs. Ensure files are valid.")\<close>.
\<close>

definition mergeAndWatermarkPdfs ::
  "('b, 'c) pdflib \<Rightarrow> 'b File option \<Rightarrow> 'b File list \<Rightarrow> PdfMetadata option \<Rightarrow> 'b File option
     \<Rightarrow> bool \<Rightarrow> error + ('b \<times> real list)" where
  "mergeAndWatermarkPdfs lib coverFile contentFiles metadata defaultCoverLogo useDefaultCover =
     (case mergeAndWatermarkPdfs_doc lib coverFile contentFiles metadata defaultCoverLogo
             useDefaultCover of
        Inl e \<Rightarrow> Inl MergeError
      | Inr st \<Rightarrow> Inr (save lib (fst st), snd st @ [100]))"

section \<open>processBatchFile\<close>

text \<open>
  The logo step (lines 449 to 464): the embedded image, or \<open>None\<close> (\<^verbatim>\<open>null\<close>) when
  there is no logo or when embedding throws, which the \<^verbatim>\<open>catch\<close> only logs.
\<close>

definition batch_embed_logo :: "('b, 'c) pdflib \<Rightarrow> 'b WatermarkConfig \<Rightarrow> image option" where
  "batch_embed_logo lib config =
     (case logoFile config of
        None \<Rightarrow> None
      | Some lf \<Rightarrow>
          (if mime_type lf = ''image/jpeg'' \<or> endsWith (toLowerCase (name lf)) ''.jpg''
              \<or> endsWith (toLowerCase (name lf)) ''.jpeg''
           then embedJpg lib (bytes lf)
           else embedPng lib (bytes lf)))"

definition processBatchFile_doc ::
  "('b, 'c) pdflib \<Rightarrow> 'b File \<Rightarrow> 'b File option \<Rightarrow> 'b WatermarkConfig \<Rightarrow> PdfMetadata option
     \<Rightarrow> error + 'c document" where
  "processBatchFile_doc lib contentFile coverFile config metadata =
     (let finalPdf = setMetadata create metadata;
          helveticaFont = HelveticaBold;
          embeddedLogo = batch_embed_logo lib config
      in case (case coverFile of
                 None \<Rightarrow> Inr finalPdf
               | Some cf \<Rightarrow>
                   (case load lib (bytes cf) of
                      None \<Rightarrow> Inl ParseError
                    | Some coverDoc \<Rightarrow>
                        (case copyPages coverDoc (getPageIndices coverDoc) of
                           Inl e \<Rightarrow> Inl e
                         | Inr copiedCoverPages \<Rightarrow> Inr (foldl addPage finalPdf copiedCoverPages)))) of
           Inl e \<Rightarrow> Inl e
         | Inr withCover \<Rightarrow>
             (case load lib (bytes contentFile) of
                None \<Rightarrow> Inl ParseError
              | Some contentDoc \<Rightarrow>
                  (case copyPages contentDoc (getPageIndices contentDoc) of
                     Inl e \<Rightarrow> Inl e
                   | Inr copiedContentPages \<Rightarrow>
                       Inr (foldl (\<lambda>d pg. addPage d
                              (applyWatermarkToPage lib pg helveticaFont config embeddedLogo))
                              withCover copiedContentPages))))"

definition processBatchFile ::
  "('b, 'c) pdflib \<Rightarrow> 'b File \<Rightarrow> 'b File option \<Rightarrow> 'b WatermarkConfig \<Rightarrow> PdfMetadata option
     \<Rightarrow> error + 'b" where
  "processBatchFile lib contentFile coverFile config metadata =
     (case processBatchFile_doc lib contentFile coverFile config metadata of
        Inl e \<Rightarrow> Inl e
      | Inr finalPdf \<Rightarrow> Inr (save lib finalPdf))"

section \<open>mergeProcessedFiles\<close>

fun merge_processed_loop ::
  "('b, 'c) pdflib \<Rightarrow> 'b list \<Rightarrow> 'c document \<Rightarrow> error + 'c document" where
  "merge_processed_loop lib [] mergedPdf = Inr mergedPdf"
| "merge_processed_loop lib (bs # rest) mergedPdf =
     (case load lib bs of
        None \<Rightarrow> Inl ParseError
      | Some doc \<Rightarrow>
          (case copyPages doc (getPageIndices doc) of
             Inl e \<Rightarrow> Inl e
           | Inr copiedPages \<Rightarrow> merge_processed_loop lib rest (foldl addPage mergedPdf copiedPages)))"

definition mergeProcessedFiles_doc :: "('b, 'c) pdflib \<Rightarrow> 'b list \<Rightarrow> error + 'c document" where
  "mergeProcessedFiles_doc lib processedFiles =
     merge_processed_loop lib processedFiles (create\<lparr>Creator := Some ''VTU Notes Merging System''\<rparr>)"

definition mergeProcessedFiles :: "('b, 'c) pdflib \<Rightarrow> 'b list \<Rightarrow> error + 'b" where
  "mergeProcessedFiles lib processedFiles =
     (case mergeProcessedFiles_doc lib processedFiles of
        Inl e \<Rightarrow> Inl e
      | Inr mergedPdf \<Rightarrow> Inr (save lib mergedPdf))"

section \<open>buildPdfFromEditor\<close>

text \<open>
  The state of the loop over the editor pages: the document under construction, the cache
  \<^verbatim>\<open>loadedDocs\<close> (a JavaScript object used as a dictionary from file id to parsed
  document), and, as instrumentation, the file ids for which \<^verbatim>\<open>PDFDocument.load\<close> has
  been called, in call order. The index of an editor page is a natural number, as
  \<^verbatim>\<open>generatePdfThumbnails\<close> produces it.
\<close>

record 'c build_state =
  newPdf :: "'c document"
  loadedDocs :: "string \<rightharpoonup> 'c page list"
  parseLog :: "string list"

text \<open>
  The cache is created as \<^verbatim>\<open>{}\<close>, a plain object, so the lookup \<^verbatim>\<open>loadedDocs[fid]\<close>
  finds, besides the entries the loop has stored, the members every object inherits from
  \<^verbatim>\<open>Object.prototype\<close>. Each of those is truthy and is not a document.
\<close>

definition Object_prototype_names :: "string list" where
  "Object_prototype_names =
     [''constructor'', ''hasOwnProperty'', ''isPrototypeOf'', ''propertyIsEnumerable'',
      ''toLocaleString'', ''toString'', ''valueOf'', ''__proto__'',
      ''__defineGetter__'', ''__defineSetter__'', ''__lookupGetter__'', ''__lookupSetter__'']"

datatype 'c cached = Document "'c page list" | InheritedMember

definition lookup_loadedDocs :: "(string \<rightharpoonup> 'c page list) \<Rightarrow> string \<Rightarrow> 'c cached option" where
  "lookup_loadedDocs cache fid =
     (case cache fid of
        Some srcDoc \<Rightarrow> Some (Document srcDoc)
      | None \<Rightarrow> if fid \<in> set Object_prototype_names then Some InheritedMember else None)"

text \<open>\<^verbatim>\<open>sourceFiles.find(f => f.id === fid)\<close>: the first file with that id.\<close>

definition find_source :: "'b FileWithId list \<Rightarrow> string \<Rightarrow> 'b FileWithId option" where
  "find_source sourceFiles fid = List.find (\<lambda>f. file_id f = fid) sourceFiles"

text \<open>
  Lines 567 to 573 for one editor page whose source document is \<open>srcDoc\<close>: copy the page,
  add the editor's rotation to the copied page's own, append.
\<close>

definition build_copy_page :: "'c document \<Rightarrow> 'c page list \<Rightarrow> EditorPage \<Rightarrow> error + 'c document" where
  "build_copy_page doc srcDoc ep =
     (case copyPages srcDoc [originalPageIndex ep] of
        Inl e \<Rightarrow> Inl e
      | Inr copied \<Rightarrow>
          (let copiedPage = hd copied;
               currentRotation = Rotate copiedPage
           in case setRotation copiedPage (currentRotation + rotation ep) of
                Inl e \<Rightarrow> Inl e
              | Inr rotated \<Rightarrow> Inr (addPage doc rotated)))"

text \<open>
  The loop (lines 556 to 574). The result pairs the error that stopped the loop, if any,
  with the state reached. When the lookup yields an inherited member, \<^verbatim>\<open>!srcDoc\<close> is
  false, the loading branch is not entered, and \<^verbatim>\<open>copyPages\<close> throws a type error on
  its first argument.
\<close>

fun build_loop ::
  "('b, 'c) pdflib \<Rightarrow> 'b FileWithId list \<Rightarrow> EditorPage list \<Rightarrow> 'c build_state
     \<Rightarrow> error option \<times> 'c build_state" where
  "build_loop lib sourceFiles [] st = (None, st)"
| "build_loop lib sourceFiles (ep # eps) st =
     (case lookup_loadedDocs (loadedDocs st) (fileId ep) of
        Some (Document srcDoc) \<Rightarrow>
          (case build_copy_page (newPdf st) srcDoc ep of
             Inl e \<Rightarrow> (Some e, st)
           | Inr doc \<Rightarrow> build_loop lib sourceFiles eps (st\<lparr>newPdf := doc\<rparr>))
      | Some InheritedMember \<Rightarrow> (Some TypeError, st)
      | None \<Rightarrow>
          (case find_source sourceFiles (fileId ep) of
             None \<Rightarrow> build_loop lib sourceFiles eps st
           | Some sourceFile \<Rightarrow>
               (let st1 = st\<lparr>parseLog := parseLog st @ [fileId ep]\<rparr>
                in case load lib (bytes (file_of sourceFile)) of
                     None \<Rightarrow> (Some ParseError, st1)
                   | Some srcDoc \<Rightarrow>
                       (let st2 = st1\<lparr>loadedDocs := (loadedDocs st1)(fileId ep \<mapsto> srcDoc)\<rparr>
                        in case build_copy_page (newPdf st2) srcDoc ep of
                             Inl e \<Rightarrow> (Some e, st2)
                           | Inr doc \<Rightarrow> build_loop lib sourceFiles eps (st2\<lparr>newPdf := doc\<rparr>)))))"

definition build_init :: "'c build_state" where
  "build_init = \<lparr>newPdf = create, loadedDocs = Map.empty, parseLog = []\<rparr>"

text \<open>The document that is serialised, and the function itself.\<close>

definition buildPdfFromEditor_doc ::
  "('b, 'c) pdflib \<Rightarrow> EditorPage list \<Rightarrow> 'b FileWithId list \<Rightarrow> error + 'c document" where
  "buildPdfFromEditor_doc lib editorPages sourceFiles =
     (case build_loop lib sourceFiles editorPages build_init of
        (Some e, st) \<Rightarrow> Inl e
      | (None, st) \<Rightarrow> Inr (newPdf st))"

definition buildPdfFromEditor ::
  "('b, 'c) pdflib \<Rightarrow> EditorPage list \<Rightarrow> 'b FileWithId list \<Rightarrow> error + 'b" where
  "buildPdfFromEditor lib editorPages sourceFiles =
     (case buildPdfFromEditor_doc lib editorPages sourceFiles of
        Inl e \<Rightarrow> Inl e
      | Inr doc \<Rightarrow> Inr (save lib doc))"

section \<open>A reference instance of the library\<close>

text \<open>
  An instance of the library parameters on which the model can be run: a buffer is
  either a PDF, given by its pages, or a PNG or JPEG image, or something else (a GIF, say);
  each decoder accepts its own kind only, and the writer writes the pages.
\<close>

datatype 'c buffer = PdfBuffer "'c page list" | PngBuffer image | JpgBuffer image | OtherBuffer

fun ref_load :: "'c buffer \<Rightarrow> 'c page list option" where
  "ref_load (PdfBuffer ps) = Some ps"
| "ref_load _ = None"

fun ref_embedPng :: "'c buffer \<Rightarrow> image option" where
  "ref_embedPng (PngBuffer img) = Some img"
| "ref_embedPng _ = None"

fun ref_embedJpg :: "'c buffer \<Rightarrow> image option" where
  "ref_embedJpg (JpgBuffer img) = Some img"
| "ref_embedJpg _ = None"

definition ref_lib :: "('c buffer, 'c) pdflib" where
  "ref_lib =
     \<lparr>load = ref_load, serialize = (\<lambda>d. PdfBuffer (pages d)),
      embedPng = ref_embedPng, embedJpg = ref_embedJpg,
      widthOfTextAtSize = (\<lambda>f s sz. sz * real (length s) / 2),
      heightAtSize = (\<lambda>f sz. sz)\<rparr>"

definition mk_page :: "nat \<Rightarrow> nat page" where
  "mk_page n = \<lparr>content = Some n, page_width = 600, page_height = 800, Rotate = 0, draws = []\<rparr>"

definition mk_file :: "string \<Rightarrow> nat list \<Rightarrow> nat buffer File" where
  "mk_file nm ns = \<lparr>name = nm, mime_type = ''application/pdf'', bytes = PdfBuffer (map mk_page ns)\<rparr>"

definition mk_source :: "string \<Rightarrow> nat page list \<Rightarrow> nat buffer FileWithId" where
  "mk_source fid ps =
     \<lparr>file_id = fid,
      file_of = \<lparr>name = fid @ ''.pdf'', mime_type = ''application/pdf'', bytes = PdfBuffer ps\<rparr>\<rparr>"

definition mk_editor_page :: "string \<Rightarrow> nat \<Rightarrow> int \<Rightarrow> EditorPage" where
  "mk_editor_page fid i r =
     \<lparr>page_id = [], fileId = fid, originalPageIndex = i, rotation = r, thumbnailUrl = []\<rparr>"

definition gif_logo :: "nat buffer File" where
  "gif_logo = \<lparr>name = ''logo.gif'', mime_type = ''image/gif'', bytes = OtherBuffer\<rparr>"

section \<open>Vocabulary of the properties\<close>

text \<open>A file parses; the pages it parses to; how many they are.\<close>

definition parses :: "('b, 'c) pdflib \<Rightarrow> 'b File \<Rightarrow> bool" where
  "parses lib f = (load lib (bytes f) \<noteq> None)"

definition source_pages :: "('b, 'c) pdflib \<Rightarrow> 'b File \<Rightarrow> 'c page list" where
  "source_pages lib f = (case load lib (bytes f) of Some ps \<Rightarrow> ps | None \<Rightarrow> [])"

definition pageCount :: "('b, 'c) pdflib \<Rightarrow> 'b File \<Rightarrow> nat" where
  "pageCount lib f = length (source_pages lib f)"


text \<open>The drawing operations a step has added to a page.\<close>

definition added_draws :: "'c page \<Rightarrow> 'c page \<Rightarrow> draw_op list" where
  "added_draws before after = drop (length (draws before)) (draws after)"

fun is_text :: "draw_op \<Rightarrow> bool" where
  "is_text (DrawText t x y sz f c opac rot lh) = True"
| "is_text _ = False"

fun is_rotated_text :: "draw_op \<Rightarrow> bool" where
  "is_rotated_text (DrawText t x y sz f c opac (Some a) lh) = True"
| "is_rotated_text _ = False"

text \<open>The same for a buffer handed to the combiner.\<close>

definition buffer_pages :: "('b, 'c) pdflib \<Rightarrow> 'b \<Rightarrow> 'c page list" where
  "buffer_pages lib b = (case load lib b of Some ps \<Rightarrow> ps | None \<Rightarrow> [])"

definition buffer_parses :: "('b, 'c) pdflib \<Rightarrow> 'b \<Rightarrow> bool" where
  "buffer_parses lib b = (load lib b \<noteq> None)"

text \<open>
  What the theorems about returned bytes ask of the library: that reading back what the
  writer wrote for a document with at least one page (\<open>save\<close> writes no other) gives as
  many pages as the document had, or gives its pages.
\<close>

definition keeps_page_count :: "('b, 'c) pdflib \<Rightarrow> bool" where
  "keeps_page_count lib =
     (\<forall>d. pages d \<noteq> [] \<longrightarrow>
          (\<exists>ps. load lib (serialize lib d) = Some ps \<and> length ps = length (pages d)))"


definition buffer_pageCount :: "('b, 'c) pdflib \<Rightarrow> 'b \<Rightarrow> nat" where
  "buffer_pageCount lib b = length (buffer_pages lib b)"

text \<open>
  The editor side: whether the source list has a file for an editor page, and the page of
  that file the editor page points to, when the file parses and has such a page.
\<close>

definition has_source :: "'b FileWithId list \<Rightarrow> EditorPage \<Rightarrow> bool" where
  "has_source sourceFiles ep = (find_source sourceFiles (fileId ep) \<noteq> None)"

definition source_doc :: "('b, 'c) pdflib \<Rightarrow> 'b FileWithId list \<Rightarrow> string \<Rightarrow> 'c page list option" where
  "source_doc lib sourceFiles fid =
     (case find_source sourceFiles fid of
        None \<Rightarrow> None
      | Some f \<Rightarrow> load lib (bytes (file_of f)))"

definition editor_source_page ::
  "('b, 'c) pdflib \<Rightarrow> 'b FileWithId list \<Rightarrow> EditorPage \<Rightarrow> 'c page option" where
  "editor_source_page lib sourceFiles ep =
     (case source_doc lib sourceFiles (fileId ep) of
        None \<Rightarrow> None
      | Some ps \<Rightarrow> if originalPageIndex ep < length ps then Some (ps ! originalPageIndex ep) else None)"

text \<open>
  The cache of the editor loop is coherent when every entry is what parsing the source
  file of that id gives.
\<close>

definition cache_ok :: "('b, 'c) pdflib \<Rightarrow> 'b FileWithId list \<Rightarrow> 'c build_state \<Rightarrow> bool" where
  "cache_ok lib sourceFiles st =
     (\<forall>fid d. loadedDocs st fid = Some d \<longrightarrow> source_doc lib sourceFiles fid = Some d)"

text \<open>The page an editor page compiles to: its source page with the editor's rotation added.\<close>

definition compiled_page ::
  "('b, 'c) pdflib \<Rightarrow> 'b FileWithId list \<Rightarrow> EditorPage \<Rightarrow> 'c page option" where
  "compiled_page lib sourceFiles ep =
     map_option (\<lambda>pg. pg\<lparr>Rotate := Rotate pg + rotation ep\<rparr>) (editor_source_page lib sourceFiles ep)"

section \<open>The watermark engine\<close>

lemma applyWatermarkToPage_draws:
  "draws (applyWatermarkToPage lib pg fnt config logoImage) =
     draws pg
     @ (case logoImage of
          None \<Rightarrow> []
        | Some img \<Rightarrow>
            [DrawImage img
               ((page_width pg / 2) - (img_width img * ((page_width pg * logoScale config) / img_width img) / 2))
               ((page_height pg / 2) - (img_height img * ((page_width pg * logoScale config) / img_width img) / 2))
               (img_width img * ((page_width pg * logoScale config) / img_width img))
               (img_height img * ((page_width pg * logoScale config) / img_width img))
               (Some (logoOpacity config))])
     @ (if diagonal config
        then [drawRotatedWatermark lib (page_width pg) (page_height pg) fnt
                (hexToRgb (textColor config)) (textOpacity config) 60]
        else [])
     @ (if crossed config
        then [drawRotatedWatermark lib (page_width pg) (page_height pg) fnt
                (hexToRgb (textColor config)) (textOpacity config) (- 60)]
        else [])
     @ (if bottom config
        then [DrawText ''vtunotesforall''
                ((page_width pg / 2) - (widthOfTextAtSize lib fnt ''vtunotesforall'' 10 / 2)) 15 10
                fnt (hexToRgb (textColor config)) (Some (min (textOpacity config + 0.4) 1))
                None None]
        else [])
     @ (if top_wm config
        then [DrawText ''vtunotesforall''
                ((page_width pg / 2) - (widthOfTextAtSize lib fnt ''vtunotesforall'' 10 / 2))
                (page_height pg - 25) 10
                fnt (hexToRgb (textColor config)) (Some (min (textOpacity config + 0.4) 1))
                None None]
        else [])"
  by (simp add: applyWatermarkToPage_def Let_def draw_def scale_def WATERMARK_ANGLE_def
      DEFAULT_WATERMARK_TEXT_def split: option.split)


lemma hex_exec_None_iff:
  "hex_exec hex = None \<longleftrightarrow>
     \<not> (\<exists>ds. length ds = 6 \<and> list_all isHexDigit ds \<and> (hex = ds \<or> hex = CHR ''#'' # ds))"
  by (cases hex) (auto simp: hex_exec_def Let_def isHexDigit_def)

text \<open>
  Claim C6. On a page of size \<open>W \<times> H\<close> the rotated stamps the engine draws are the
  diagonal one at +60 degrees when \<open>diagonal\<close> is set, then the crossed one at -60 degrees
  when \<open>crossed\<close> is set, and nothing else. Each has font size \<open>0.11 * min W H\<close> and origin
  \<open>x = cx - (w/2 * cos \<theta> - h/2 * sin \<theta>)\<close>, \<open>y = cy - (w/2 * sin \<theta> + h/2 * cos \<theta>)\<close>, where
  \<open>(cx, cy)\<close> is the page centre, \<open>(w, h)\<close> the text's width and height at that size, and
  \<open>\<theta>\<close> the angle in radians. The origin is a function of the page size, the font metrics
  and the angle alone. Numbers are reals here; the source evaluates the same expressions
  in double precision.
\<close>

theorem rotated_stamp_geometry:
  "let W = page_width pg; H = page_height pg;
       cx = W / 2; cy = H / 2;
       fontSize = 0.11 * min W H;
       w = widthOfTextAtSize lib fnt ''vtunotesforall'' fontSize;
       h = heightAtSize lib fnt fontSize;
       stamp = (\<lambda>deg. let \<theta> = deg * pi / 180
                      in DrawText ''vtunotesforall''
                           (cx - (w / 2 * cos \<theta> - h / 2 * sin \<theta>))
                           (cy - (w / 2 * sin \<theta> + h / 2 * cos \<theta>))
                           fontSize fnt (hexToRgb (textColor config)) (Some (textOpacity config))
                           (Some deg) None)
   in filter is_rotated_text (added_draws pg (applyWatermarkToPage lib pg fnt config logoImage)) =
        (if diagonal config then [stamp 60] else []) @ (if crossed config then [stamp (- 60)] else [])"
  by (simp add: added_draws_def applyWatermarkToPage_draws drawRotatedWatermark_def Let_def
      DEFAULT_WATERMARK_TEXT_def mult.commute split: option.split)

text \<open>
  Claim C10. When \<open>textColor\<close> is not six hexadecimal digits with an optional leading
  \<^verbatim>\<open>#\<close>, \<open>hexToRgb\<close> returns the fixed gray \<open>rgb 0.5 0.5 0.5\<close>, and the engine draws
  every enabled text stamp, each in that gray.
\<close>

theorem bad_text_color_falls_back_to_gray:
  assumes "\<not> (\<exists>ds. length ds = 6 \<and> list_all isHexDigit ds
                  \<and> (textColor config = ds \<or> textColor config = CHR ''#'' # ds))"
  shows "hexToRgb (textColor config) = rgb 0.5 0.5 0.5
       \<and> map dt_color (filter is_text (added_draws pg
              (applyWatermarkToPage lib pg fnt config logoImage))) =
           replicate (length (filter (\<lambda>enabled. enabled)
              [diagonal config, crossed config, bottom config, top_wm config])) (rgb 0.5 0.5 0.5)"
proof -
  have n: "hex_exec (textColor config) = None"
    using assms by (simp add: hex_exec_None_iff)
  then have g: "hexToRgb (textColor config) = rgb 0.5 0.5 0.5"
    by (simp add: hexToRgb_def STRICT_WATERMARK_COLOR_def)
  show ?thesis
    by (simp add: g added_draws_def applyWatermarkToPage_draws drawRotatedWatermark_def Let_def
        split: option.split)
qed

theorem bad_text_color_falls_back_to_gray_witness:
  "\<not> (\<exists>ds. length ds = 6 \<and> list_all isHexDigit ds \<and> (''red'' = ds \<or> ''red'' = CHR ''#'' # ds))
   \<and> hexToRgb ''red'' = rgb 0.5 0.5 0.5
   \<and> map dt_color (filter is_text (added_draws (mk_page 7)
         (applyWatermarkToPage ref_lib (mk_page 7) HelveticaBold
            (DEFAULT_MERGE_CONFIG\<lparr>textColor := ''red''\<rparr>) None))) =
       [rgb 0.5 0.5 0.5, rgb 0.5 0.5 0.5]"
proof -
  have h: "\<not> (\<exists>ds. length ds = 6 \<and> list_all isHexDigit ds
      \<and> (textColor (DEFAULT_MERGE_CONFIG\<lparr>textColor := ''red''\<rparr>) = ds
         \<or> textColor (DEFAULT_MERGE_CONFIG\<lparr>textColor := ''red''\<rparr>) = CHR ''#'' # ds))"
    by auto
  show ?thesis
    using h bad_text_color_falls_back_to_gray [OF h, where pg = "mk_page 7" and lib = ref_lib
        and fnt = HelveticaBold and logoImage = None]
    by (simp add: DEFAULT_MERGE_CONFIG_def)
qed

section \<open>The merge pipeline\<close>

lemma foldl_addPage_map:
  "foldl (\<lambda>d pg. addPage d (g pg)) d ps = d\<lparr>pages := pages d @ map g ps\<rparr>"
  by (induction ps arbitrary: d) (simp_all add: addPage_def)

lemma foldl_addPage: "foldl addPage d ps = d\<lparr>pages := pages d @ ps\<rparr>"
  using foldl_addPage_map [of "\<lambda>pg. pg" d ps] by simp

lemma copyPages_all: "copyPages src (getPageIndices src) = Inr src"
  by (simp add: copyPages_def getPageIndices_def list_all_iff map_nth)

lemma pages_create: "pages create = []"
  by (simp add: create_def)

lemma pages_setMetadata: "pages (setMetadata d m) = pages d"
  by (simp add: setMetadata_def Let_def split: option.split)

lemma merge_content_loop_ok:
  "list_all (parses lib) fs \<Longrightarrow>
   \<exists>lg'. merge_content_loop lib fnt n i fs (d, lg) =
     Inr (d\<lparr>pages := pages d @ concat (map (\<lambda>f. map (\<lambda>pg. applyWatermarkToPage lib pg fnt
              DEFAULT_MERGE_CONFIG None) (source_pages lib f)) fs)\<rparr>, lg')"
proof (induction fs arbitrary: d lg i)
  case Nil
  then show ?case by simp
next
  case (Cons f fs)
  from Cons.prems have here: "parses lib f" and rest: "list_all (parses lib) fs"
    by simp_all
  from here obtain ps where ps: "load lib (bytes f) = Some ps"
    by (auto simp: parses_def)
  let ?wm = "\<lambda>pg. applyWatermarkToPage lib pg fnt DEFAULT_MERGE_CONFIG None"
  let ?d = "d\<lparr>pages := pages d @ map ?wm ps\<rparr>"
  have step: "merge_content_loop lib fnt n i (f # fs) (d, lg) =
      merge_content_loop lib fnt n (i + 1) fs (?d, lg @ [15 + (real (i + 1) * (80 / real n))])"
    by (simp add: ps copyPages_all foldl_addPage_map Let_def)
  have sp: "source_pages lib f = ps"
    by (simp add: source_pages_def ps)
  from Cons.IH [OF rest, of "i + 1" ?d "lg @ [15 + (real (i + 1) * (80 / real n))]"]
  show ?case
    unfolding step by (simp add: sp)
qed

lemma merge_cover_ok:
  "(case coverFile of None \<Rightarrow> True | Some cf \<Rightarrow> parses lib cf) \<Longrightarrow>
   \<exists>lg'. merge_cover lib coverFile logo useDefaultCover (d, lg) =
     Inr (d\<lparr>pages := pages d @ (case coverFile of
                Some cf \<Rightarrow> source_pages lib cf
              | None \<Rightarrow> if useDefaultCover then pages (generateDefaultCoverPage lib create logo) else [])\<rparr>, lg')"
  by (auto simp: merge_cover_def parses_def source_pages_def copyPages_all foldl_addPage
      generateDefaultCoverPage_def addPage_def create_def Let_def split: option.split)

lemma merge_doc_pages:
  assumes "case coverFile of None \<Rightarrow> True | Some cf \<Rightarrow> parses lib cf"
    and "list_all (parses lib) contentFiles"
  shows "\<exists>mergedPdf prog.
     mergeAndWatermarkPdfs_doc lib coverFile contentFiles metadata logo useDefaultCover = Inr (mergedPdf, prog)
   \<and> mergeAndWatermarkPdfs lib coverFile contentFiles metadata logo useDefaultCover = Inr (save lib mergedPdf, prog @ [100])
   \<and> mergedPdf = (setMetadata create metadata)\<lparr>pages := pages mergedPdf\<rparr>
   \<and> pages mergedPdf =
       (case coverFile of
          Some cf \<Rightarrow> source_pages lib cf
        | None \<Rightarrow> if useDefaultCover then pages (generateDefaultCoverPage lib create logo) else [])
       @ concat (map (\<lambda>f. map (\<lambda>pg. applyWatermarkToPage lib pg HelveticaBold
              DEFAULT_MERGE_CONFIG None) (source_pages lib f)) contentFiles)"
proof -
  let ?d1 = "(setMetadata create metadata)\<lparr>pages := pages (setMetadata create metadata) @ (case coverFile of
                Some cf \<Rightarrow> source_pages lib cf
              | None \<Rightarrow> if useDefaultCover then pages (generateDefaultCoverPage lib create logo) else [])\<rparr>"
  obtain lg1 where c: "merge_cover lib coverFile logo useDefaultCover (setMetadata create metadata, []) =
     Inr (?d1, lg1)"
    using merge_cover_ok [OF assms(1)] by blast
  obtain lg2 where l: "merge_content_loop lib HelveticaBold (length contentFiles) 0 contentFiles (?d1, lg1 @ [15]) =
     Inr (?d1\<lparr>pages := pages ?d1 @ concat (map (\<lambda>f. map (\<lambda>pg. applyWatermarkToPage lib pg HelveticaBold
              DEFAULT_MERGE_CONFIG None) (source_pages lib f)) contentFiles)\<rparr>, lg2)"
    using merge_content_loop_ok [OF assms(2)] by blast
  have d: "mergeAndWatermarkPdfs_doc lib coverFile contentFiles metadata logo useDefaultCover =
      Inr (?d1\<lparr>pages := pages ?d1 @ concat (map (\<lambda>f. map (\<lambda>pg. applyWatermarkToPage lib pg HelveticaBold
              DEFAULT_MERGE_CONFIG None) (source_pages lib f)) contentFiles)\<rparr>, lg2 @ [95])"
    unfolding mergeAndWatermarkPdfs_doc_def Let_def c by (simp add: l)
  show ?thesis
    unfolding mergeAndWatermarkPdfs_def d by (simp add: pages_setMetadata pages_create)
qed

lemma save_keeps_count:
  assumes "keeps_page_count lib"
  shows "buffer_parses lib (save lib d)"
    and "buffer_pageCount lib (save lib d) = (if pages d = [] then 1 else length (pages d))"
proof -
  let ?w = "if pages d = [] then addPage d default_page else d"
  have "pages ?w \<noteq> []"
    by (simp add: addPage_def)
  with assms obtain ps where ps: "load lib (serialize lib ?w) = Some ps" "length ps = length (pages ?w)"
    unfolding keeps_page_count_def by blast
  show "buffer_parses lib (save lib d)"
    using ps(1) by (simp add: buffer_parses_def save_def)
  show "buffer_pageCount lib (save lib d) = (if pages d = [] then 1 else length (pages d))"
    using ps by (simp add: buffer_pageCount_def buffer_pages_def save_def addPage_def)
qed


text \<open>
  Claim C1, as the code has it. The claim says that the output has exactly as many pages
  as the cover and the content files together, also when that is none. The service calls
  \<^verbatim>\<open>save()\<close> with no options, and the library then adds a blank page to a document
  without pages. What holds instead: when the cover, if one is supplied, and every content
  file parse, the merge succeeds and returns what saving gives for a document with as many
  pages as the cover (the cover file's pages; else one page when the default cover is
  requested; else none) plus all the content files together; for a library that reads
  back as many pages as its writer wrote, the bytes returned parse to that many pages when
  the total is at least one, and to one page when the total is zero.
\<close>

theorem merge_page_count:
  assumes "case coverFile of None \<Rightarrow> True | Some cf \<Rightarrow> parses lib cf"
    and "list_all (parses lib) contentFiles"
    and "keeps_page_count lib"
  shows "\<exists>out prog mergedPdf.
     mergeAndWatermarkPdfs lib coverFile contentFiles metadata logo useDefaultCover = Inr (out, prog)
   \<and> out = save lib mergedPdf
   \<and> length (pages mergedPdf) =
       (case coverFile of
          Some cf \<Rightarrow> pageCount lib cf
        | None \<Rightarrow> if useDefaultCover then 1 else 0)
       + sum_list (map (pageCount lib) contentFiles)
   \<and> buffer_parses lib out
   \<and> buffer_pageCount lib out =
       (let total = (case coverFile of
                       Some cf \<Rightarrow> pageCount lib cf
                     | None \<Rightarrow> if useDefaultCover then 1 else 0)
                    + sum_list (map (pageCount lib) contentFiles)
        in if total = 0 then 1 else total)"
proof -
  obtain mergedPdf prog where
    b: "mergeAndWatermarkPdfs lib coverFile contentFiles metadata logo useDefaultCover = Inr (save lib mergedPdf, prog @ [100])"
    and c: "pages mergedPdf =
       (case coverFile of
          Some cf \<Rightarrow> source_pages lib cf
        | None \<Rightarrow> if useDefaultCover then pages (generateDefaultCoverPage lib create logo) else [])
       @ concat (map (\<lambda>f. map (\<lambda>pg. applyWatermarkToPage lib pg HelveticaBold
              DEFAULT_MERGE_CONFIG None) (source_pages lib f)) contentFiles)"
    using merge_doc_pages [OF assms(1,2)] by blast
  have n: "length (pages mergedPdf) = (case coverFile of
          Some cf \<Rightarrow> pageCount lib cf
        | None \<Rightarrow> if useDefaultCover then 1 else 0)
       + sum_list (map (pageCount lib) contentFiles)"
    by (simp add: c pageCount_def [abs_def] length_concat comp_def generateDefaultCoverPage_def
        addPage_def create_def Let_def split: option.split)
  have "buffer_pageCount lib (save lib mergedPdf) =
       (let total = (case coverFile of
                       Some cf \<Rightarrow> pageCount lib cf
                     | None \<Rightarrow> if useDefaultCover then 1 else 0)
                    + sum_list (map (pageCount lib) contentFiles)
        in if total = 0 then 1 else total)"
    unfolding save_keeps_count(2) [OF assms(3)] n [symmetric] by (simp add: Let_def)
  with b n save_keeps_count(1) [OF assms(3)] show ?thesis
    by blast
qed

theorem merge_page_count_witness:
  "list_all (parses ref_lib) [mk_file ''a.pdf'' [11, 12, 13], mk_file ''b.pdf'' [21]]
   \<and> keeps_page_count (ref_lib :: (nat buffer, nat) pdflib)
   \<and> (\<exists>out prog.
         mergeAndWatermarkPdfs ref_lib None [mk_file ''a.pdf'' [11, 12, 13], mk_file ''b.pdf'' [21]]
           None None True = Inr (out, prog)
       \<and> buffer_parses ref_lib out
       \<and> buffer_pageCount ref_lib out = 5)"
proof -
  have h: "list_all (parses ref_lib) [mk_file ''a.pdf'' [11, 12, 13], mk_file ''b.pdf'' [21]]"
    by (simp add: parses_def ref_lib_def mk_file_def)
  have k: "keeps_page_count (ref_lib :: (nat buffer, nat) pdflib)"
    by (simp add: keeps_page_count_def ref_lib_def)
  have n: "pageCount ref_lib (mk_file ''a.pdf'' [11, 12, 13]) = 3"
    "pageCount ref_lib (mk_file ''b.pdf'' [21]) = 1"
    by (simp_all add: pageCount_def source_pages_def ref_lib_def mk_file_def)
  show ?thesis
    using h k merge_page_count [where lib = ref_lib and coverFile = None
        and contentFiles = "[mk_file ''a.pdf'' [11, 12, 13], mk_file ''b.pdf'' [21]]"
        and metadata = None and logo = None and useDefaultCover = True]
    by (auto simp: n)
qed

text \<open>
  The run against the claim as stated: no cover, no default cover and no content file.
  The claim gives the output zero pages; the bytes returned hold one page, the blank
  page that saving adds.
\<close>

theorem merge_of_nothing_counterexample:
  "mergeAndWatermarkPdfs ref_lib None [] None None False =
     Inr (PdfBuffer [default_page :: nat page], [15, 95, 100])
   \<and> buffer_pageCount ref_lib (PdfBuffer [default_page :: nat page]) = 1
   \<and> (0 :: nat) + sum_list (map (pageCount (ref_lib :: (nat buffer, nat) pdflib)) []) = 0"
  by (simp add: mergeAndWatermarkPdfs_def mergeAndWatermarkPdfs_doc_def merge_cover_def
      setMetadata_def create_def save_def addPage_def ref_lib_def buffer_pageCount_def
      buffer_pages_def)








section \<open>The post-merge combiner\<close>

lemma merge_processed_loop_ok:
  "list_all (buffer_parses lib) bufs \<Longrightarrow>
   merge_processed_loop lib bufs d = Inr (d\<lparr>pages := pages d @ concat (map (buffer_pages lib) bufs)\<rparr>)"
proof (induction bufs arbitrary: d)
  case Nil
  then show ?case by simp
next
  case (Cons b bufs)
  from Cons.prems obtain ps where ps: "load lib b = Some ps"
    by (auto simp: buffer_parses_def)
  from Cons.prems have rest: "list_all (buffer_parses lib) bufs"
    by simp
  show ?case
    by (simp add: ps copyPages_all foldl_addPage Cons.IH [OF rest] buffer_pages_def)
qed

lemma mergeProcessedFiles_ok:
  "list_all (buffer_parses lib) bufs \<Longrightarrow>
   mergeProcessedFiles lib bufs =
     Inr (save lib \<lparr>pages = concat (map (buffer_pages lib) bufs), Title = None, Author = None,
                    Creator = Some ''VTU Notes Merging System''\<rparr>)"
  by (simp add: mergeProcessedFiles_doc_def mergeProcessedFiles_def merge_processed_loop_ok
      create_def)

text \<open>
  Claim C9, as the code has it. The claim says that for all buffers that parse the
  combined output has as many pages as its inputs together and that the page count is
  associative. The service calls \<^verbatim>\<open>save()\<close> with no options, and the library then adds a
  blank page to a document without pages, so two buffers without pages combine to one
  page. What holds instead, for buffers \<open>a\<close>, \<open>b\<close>, \<open>c\<close> that parse and a library that
  reads back as many pages as its writer wrote: combining \<open>[a, b]\<close> saves the document
  whose pages are those of \<open>a\<close> followed by those of \<open>b\<close>, unchanged (nothing is drawn on
  them); the output has as many pages as \<open>a\<close> and \<open>b\<close> together when that is at least
  one, and one page otherwise; and combining that output with \<open>c\<close> gives as many pages as
  combining \<open>[a, b, c]\<close> whenever \<open>a\<close> and \<open>b\<close> have a page between them or \<open>c\<close> has none.
\<close>

theorem combine_page_count:
  assumes parse: "buffer_parses lib a" "buffer_parses lib b" "buffer_parses lib c"
    and keep: "keeps_page_count lib"
  shows "\<exists>ab abc ab_c.
      mergeProcessedFiles lib [a, b] = Inr ab
    \<and> ab = save lib \<lparr>pages = buffer_pages lib a @ buffer_pages lib b, Title = None, Author = None,
                      Creator = Some ''VTU Notes Merging System''\<rparr>
    \<and> buffer_parses lib ab
    \<and> buffer_pageCount lib ab =
        (if buffer_pageCount lib a + buffer_pageCount lib b = 0 then 1
         else buffer_pageCount lib a + buffer_pageCount lib b)
    \<and> mergeProcessedFiles lib [a, b, c] = Inr abc
    \<and> mergeProcessedFiles lib [ab, c] = Inr ab_c
    \<and> (0 < buffer_pageCount lib a + buffer_pageCount lib b \<or> buffer_pageCount lib c = 0
        \<longrightarrow> buffer_pageCount lib ab_c = buffer_pageCount lib abc)"
proof -
  let ?doc = "\<lambda>ps. \<lparr>pages = ps, Title = None, Author = None,
                    Creator = Some ''VTU Notes Merging System''\<rparr>"
  let ?ab = "save lib (?doc (buffer_pages lib a @ buffer_pages lib b))"
  have ab: "mergeProcessedFiles lib [a, b] = Inr ?ab"
    using mergeProcessedFiles_ok [of lib "[a, b]"] parse by simp
  have pab: "buffer_parses lib ?ab"
    by (rule save_keeps_count(1) [OF keep])
  have nab: "buffer_pageCount lib ?ab =
        (if buffer_pageCount lib a + buffer_pageCount lib b = 0 then 1
         else buffer_pageCount lib a + buffer_pageCount lib b)"
    unfolding save_keeps_count(2) [OF keep] by (simp add: buffer_pageCount_def)
  have abc: "mergeProcessedFiles lib [a, b, c] =
      Inr (save lib (?doc (buffer_pages lib a @ buffer_pages lib b @ buffer_pages lib c)))"
    using mergeProcessedFiles_ok [of lib "[a, b, c]"] parse by simp
  have ab_c: "mergeProcessedFiles lib [?ab, c] =
      Inr (save lib (?doc (buffer_pages lib ?ab @ buffer_pages lib c)))"
    using mergeProcessedFiles_ok [of lib "[?ab, c]"] parse pab by simp
  have nabc: "buffer_pageCount lib (save lib (?doc (buffer_pages lib a @ buffer_pages lib b @ buffer_pages lib c))) =
      (if buffer_pageCount lib a + buffer_pageCount lib b + buffer_pageCount lib c = 0 then 1
       else buffer_pageCount lib a + buffer_pageCount lib b + buffer_pageCount lib c)"
    unfolding save_keeps_count(2) [OF keep] by (simp add: buffer_pageCount_def)
  have gen: "buffer_pageCount lib (save lib (?doc (buffer_pages lib x @ buffer_pages lib c))) =
      (if buffer_pageCount lib x + buffer_pageCount lib c = 0 then 1
       else buffer_pageCount lib x + buffer_pageCount lib c)" for x
    unfolding save_keeps_count(2) [OF keep] by (simp add: buffer_pageCount_def)
  note nab_c = gen [of ?ab]
  have assoc: "0 < buffer_pageCount lib a + buffer_pageCount lib b \<or> buffer_pageCount lib c = 0
      \<longrightarrow> buffer_pageCount lib (save lib (?doc (buffer_pages lib ?ab @ buffer_pages lib c))) =
          buffer_pageCount lib (save lib (?doc (buffer_pages lib a @ buffer_pages lib b @ buffer_pages lib c)))"
    unfolding nab_c nabc nab by auto
  show ?thesis
    by (rule exI [of _ ?ab],
        rule exI [of _ "save lib (?doc (buffer_pages lib a @ buffer_pages lib b @ buffer_pages lib c))"],
        rule exI [of _ "save lib (?doc (buffer_pages lib ?ab @ buffer_pages lib c))"])
      (intro conjI ab refl pab nab abc ab_c assoc)
qed

theorem combine_page_count_witness:
  "buffer_parses ref_lib (PdfBuffer (map mk_page [11, 12]))
   \<and> buffer_parses ref_lib (PdfBuffer (map mk_page [21]))
   \<and> buffer_parses ref_lib (PdfBuffer (map mk_page [31, 32, 33]))
   \<and> keeps_page_count (ref_lib :: (nat buffer, nat) pdflib)
   \<and> 0 < buffer_pageCount ref_lib (PdfBuffer (map mk_page [11, 12]))
         + buffer_pageCount ref_lib (PdfBuffer (map mk_page [21]))
   \<and> (\<exists>ab abc ab_c.
         mergeProcessedFiles ref_lib [PdfBuffer (map mk_page [11, 12]), PdfBuffer (map mk_page [21])] = Inr ab
       \<and> ab = PdfBuffer (map mk_page [11, 12, 21])
       \<and> buffer_pageCount ref_lib ab = 3
       \<and> mergeProcessedFiles ref_lib [PdfBuffer (map mk_page [11, 12]), PdfBuffer (map mk_page [21]),
            PdfBuffer (map mk_page [31, 32, 33])] = Inr abc
       \<and> mergeProcessedFiles ref_lib [ab, PdfBuffer (map mk_page [31, 32, 33])] = Inr ab_c
       \<and> buffer_pageCount ref_lib ab_c = buffer_pageCount ref_lib abc)"
proof -
  have p: "buffer_parses ref_lib (PdfBuffer (map mk_page [11, 12]))"
    "buffer_parses ref_lib (PdfBuffer (map mk_page [21]))"
    "buffer_parses ref_lib (PdfBuffer (map mk_page [31, 32, 33]))"
    by (simp_all add: buffer_parses_def ref_lib_def)
  have k: "keeps_page_count (ref_lib :: (nat buffer, nat) pdflib)"
    by (simp add: keeps_page_count_def ref_lib_def)
  have n: "\<And>ps::nat page list. buffer_pages ref_lib (PdfBuffer ps) = ps"
    by (simp add: buffer_pages_def ref_lib_def)
  have c: "\<And>ps::nat page list. buffer_pageCount ref_lib (PdfBuffer ps) = length ps"
    by (simp add: buffer_pageCount_def n)
  have s: "\<And>ps t a cr. ps \<noteq> [] \<Longrightarrow>
      save ref_lib \<lparr>pages = ps, Title = t, Author = a, Creator = cr\<rparr> = PdfBuffer (ps :: nat page list)"
    by (simp add: save_def ref_lib_def)
  from combine_page_count [OF p k] obtain ab abc ab_c where r:
    "mergeProcessedFiles ref_lib [PdfBuffer (map mk_page [11, 12]), PdfBuffer (map mk_page [21])] = Inr ab"
    "ab = PdfBuffer (map mk_page [11, 12, 21])"
    "buffer_pageCount ref_lib ab = 3"
    "mergeProcessedFiles ref_lib [PdfBuffer (map mk_page [11, 12]), PdfBuffer (map mk_page [21]),
            PdfBuffer (map mk_page [31, 32, 33])] = Inr abc"
    "mergeProcessedFiles ref_lib [ab, PdfBuffer (map mk_page [31, 32, 33])] = Inr ab_c"
    "buffer_pageCount ref_lib ab_c = buffer_pageCount ref_lib abc"
    by (auto simp: n c s)
  have pos: "0 < buffer_pageCount ref_lib (PdfBuffer (map mk_page [11, 12]))
         + buffer_pageCount ref_lib (PdfBuffer (map mk_page [21]))"
    by (simp add: c)
  from p k pos r show ?thesis
    by blast
qed

text \<open>
  The run against the claim as stated: \<open>a\<close> and \<open>b\<close> are buffers that parse to no page
  and \<open>c\<close> has one page. Combining \<open>[a, b]\<close> gives one page, not none; combining that
  output with \<open>c\<close> gives two pages, combining \<open>[a, b, c]\<close> gives one.
\<close>

theorem combine_of_empty_counterexample:
  "buffer_parses ref_lib (PdfBuffer ([] :: nat page list))
   \<and> buffer_pageCount ref_lib (PdfBuffer ([] :: nat page list)) = 0
   \<and> mergeProcessedFiles ref_lib [PdfBuffer [], PdfBuffer []] = Inr (PdfBuffer [default_page :: nat page])
   \<and> buffer_pageCount ref_lib (PdfBuffer [default_page :: nat page]) = 1
   \<and> mergeProcessedFiles ref_lib [PdfBuffer [default_page], PdfBuffer [mk_page 31]] =
       Inr (PdfBuffer [default_page, mk_page 31])
   \<and> mergeProcessedFiles ref_lib [PdfBuffer [], PdfBuffer [], PdfBuffer [mk_page 31]] =
       Inr (PdfBuffer [mk_page 31])"
  by (simp add: mergeProcessedFiles_def mergeProcessedFiles_doc_def copyPages_all foldl_addPage
      create_def save_def addPage_def ref_lib_def buffer_pageCount_def buffer_pages_def
      buffer_parses_def)

section \<open>Batch processing\<close>

lemma applyWatermarkToPage_logoFile:
  "applyWatermarkToPage lib pg fnt (config\<lparr>logoFile := x\<rparr>) logoImage =
   applyWatermarkToPage lib pg fnt config logoImage"
  by (simp add: applyWatermarkToPage_def Let_def split: option.split)

text \<open>
  Claim C4, as the code has it. The claim says that a logo whose bytes neither decoder
  accepts makes \<open>processBatchFile\<close> fail before any page is drawn. The code catches the
  failure of the embedding and goes on with no logo. What holds instead: the result is the result
  for the same configuration without a logo, and when the content file and the cover, if
  any, parse, the call succeeds and each content page is stamped with no logo image.
\<close>

theorem undecodable_logo_is_dropped:
  assumes "logoFile config = Some lf"
    and "embedPng lib (bytes lf) = None" and "embedJpg lib (bytes lf) = None"
  shows "processBatchFile lib contentFile coverFile config metadata =
         processBatchFile lib contentFile coverFile (config\<lparr>logoFile := None\<rparr>) metadata
       \<and> (parses lib contentFile \<and> (case coverFile of None \<Rightarrow> True | Some cf \<Rightarrow> parses lib cf)
          \<longrightarrow> (\<exists>finalPdf.
                processBatchFile_doc lib contentFile coverFile config metadata = Inr finalPdf
              \<and> processBatchFile lib contentFile coverFile config metadata = Inr (save lib finalPdf)
              \<and> pages finalPdf =
                  (case coverFile of None \<Rightarrow> [] | Some cf \<Rightarrow> source_pages lib cf)
                  @ map (\<lambda>pg. applyWatermarkToPage lib pg HelveticaBold config None)
                      (source_pages lib contentFile)))"
proof -
  have e: "batch_embed_logo lib config = None"
    using assms by (simp add: batch_embed_logo_def)
  have e': "batch_embed_logo lib (config\<lparr>logoFile := None\<rparr>) = None"
    by (simp add: batch_embed_logo_def)
  have d: "processBatchFile_doc lib contentFile coverFile config metadata =
         processBatchFile_doc lib contentFile coverFile (config\<lparr>logoFile := None\<rparr>) metadata"
    unfolding processBatchFile_doc_def e e' applyWatermarkToPage_logoFile by (rule refl)
  have "\<exists>finalPdf.
                processBatchFile_doc lib contentFile coverFile config metadata = Inr finalPdf
              \<and> processBatchFile lib contentFile coverFile config metadata = Inr (save lib finalPdf)
              \<and> pages finalPdf =
                  (case coverFile of None \<Rightarrow> [] | Some cf \<Rightarrow> source_pages lib cf)
                  @ map (\<lambda>pg. applyWatermarkToPage lib pg HelveticaBold config None)
                      (source_pages lib contentFile)"
    if p: "parses lib contentFile" "case coverFile of None \<Rightarrow> True | Some cf \<Rightarrow> parses lib cf"
    using p
    by (auto simp: processBatchFile_def processBatchFile_doc_def e parses_def source_pages_def
        copyPages_all foldl_addPage foldl_addPage_map pages_setMetadata pages_create Let_def
        split: option.split)
  then show ?thesis
    by (simp add: processBatchFile_def d)
qed

theorem undecodable_logo_is_dropped_witness:
  "logoFile (DEFAULT_MERGE_CONFIG\<lparr>logoFile := Some gif_logo\<rparr>) = Some gif_logo
   \<and> embedPng ref_lib (bytes gif_logo) = None
   \<and> embedJpg ref_lib (bytes gif_logo) = None
   \<and> parses ref_lib (mk_file ''a.pdf'' [11, 12])
   \<and> processBatchFile ref_lib (mk_file ''a.pdf'' [11, 12]) None
        (DEFAULT_MERGE_CONFIG\<lparr>logoFile := Some gif_logo\<rparr>) None =
      processBatchFile ref_lib (mk_file ''a.pdf'' [11, 12]) None
        (DEFAULT_MERGE_CONFIG\<lparr>logoFile := None\<rparr>) None
   \<and> (\<exists>finalPdf.
         processBatchFile ref_lib (mk_file ''a.pdf'' [11, 12]) None
           (DEFAULT_MERGE_CONFIG\<lparr>logoFile := Some gif_logo\<rparr>) None = Inr (save ref_lib finalPdf)
       \<and> pages finalPdf =
           map (\<lambda>pg. applyWatermarkToPage ref_lib pg HelveticaBold
                  (DEFAULT_MERGE_CONFIG\<lparr>logoFile := Some gif_logo\<rparr>) None)
             (map mk_page [11, 12]))"
proof -
  have h1: "logoFile (DEFAULT_MERGE_CONFIG\<lparr>logoFile := Some gif_logo\<rparr>) = Some gif_logo"
    by simp
  have h2: "embedPng ref_lib (bytes gif_logo) = None"
    by (simp add: ref_lib_def gif_logo_def)
  have h3: "embedJpg ref_lib (bytes gif_logo) = None"
    by (simp add: ref_lib_def gif_logo_def)
  have h4: "parses ref_lib (mk_file ''a.pdf'' [11, 12])"
    by (simp add: parses_def ref_lib_def mk_file_def)
  have n: "source_pages ref_lib (mk_file ''a.pdf'' [11, 12]) = map mk_page [11, 12]"
    by (simp add: source_pages_def ref_lib_def mk_file_def)
  note t = undecodable_logo_is_dropped [OF h1 h2 h3, where contentFile = "mk_file ''a.pdf'' [11, 12]"
      and coverFile = None and metadata = None]
  from t [THEN conjunct1] have eq: "processBatchFile ref_lib (mk_file ''a.pdf'' [11, 12]) None
        (DEFAULT_MERGE_CONFIG\<lparr>logoFile := Some gif_logo\<rparr>) None =
      processBatchFile ref_lib (mk_file ''a.pdf'' [11, 12]) None
        (DEFAULT_MERGE_CONFIG\<lparr>logoFile := None\<rparr>) None"
    by simp
  from t [THEN conjunct2] h4 obtain finalPdf where
    "processBatchFile ref_lib (mk_file ''a.pdf'' [11, 12]) None
           (DEFAULT_MERGE_CONFIG\<lparr>logoFile := Some gif_logo\<rparr>) None = Inr (save ref_lib finalPdf)"
    "pages finalPdf =
           map (\<lambda>pg. applyWatermarkToPage ref_lib pg HelveticaBold
                  (DEFAULT_MERGE_CONFIG\<lparr>logoFile := Some gif_logo\<rparr>) None)
             (map mk_page [11, 12])"
    by (auto simp: n)
  with h1 h2 h3 h4 eq show ?thesis
    by blast
qed

text \<open>
  The run against the claim as stated: a GIF logo, which neither decoder accepts, and the
  call returns the stamped document.
\<close>

theorem undecodable_logo_counterexample:
  "logoFile (DEFAULT_MERGE_CONFIG\<lparr>logoFile := Some gif_logo\<rparr>) = Some gif_logo
   \<and> embedPng ref_lib (bytes gif_logo) = None
   \<and> embedJpg ref_lib (bytes gif_logo) = None
   \<and> processBatchFile ref_lib (mk_file ''a.pdf'' [11]) None
        (DEFAULT_MERGE_CONFIG\<lparr>logoFile := Some gif_logo\<rparr>) None =
      Inr (PdfBuffer [applyWatermarkToPage ref_lib (mk_page 11) HelveticaBold
                        (DEFAULT_MERGE_CONFIG\<lparr>logoFile := Some gif_logo\<rparr>) None])"
  by (simp add: processBatchFile_def processBatchFile_doc_def batch_embed_logo_def ref_lib_def
      gif_logo_def mk_file_def endsWith_def toLowerCase_def copyPages_all setMetadata_def
      create_def addPage_def save_def Let_def)

section \<open>The editor pipeline\<close>

lemma lookup_hit:
  "loadedDocs st fid = Some srcDoc
   \<Longrightarrow> lookup_loadedDocs (loadedDocs st) fid = Some (Document srcDoc)"
  by (simp add: lookup_loadedDocs_def)

lemma lookup_inherited:
  "loadedDocs st fid = None \<Longrightarrow> fid \<in> set Object_prototype_names
   \<Longrightarrow> lookup_loadedDocs (loadedDocs st) fid = Some InheritedMember"
  by (simp add: lookup_loadedDocs_def)

lemma lookup_miss:
  "loadedDocs st fid = None \<Longrightarrow> fid \<notin> set Object_prototype_names
   \<Longrightarrow> lookup_loadedDocs (loadedDocs st) fid = None"
  by (simp add: lookup_loadedDocs_def)

lemma cache_ok_init: "cache_ok lib sourceFiles build_init"
  by (simp add: cache_ok_def build_init_def)

lemma cache_ok_newPdf: "cache_ok lib sourceFiles (st\<lparr>newPdf := doc\<rparr>) = cache_ok lib sourceFiles st"
  by (simp add: cache_ok_def)

lemma cache_ok_load:
  "cache_ok lib sourceFiles st \<Longrightarrow> find_source sourceFiles fid = Some f
   \<Longrightarrow> load lib (bytes (file_of f)) = Some srcDoc
   \<Longrightarrow> cache_ok lib sourceFiles
        (st\<lparr>parseLog := lg, loadedDocs := (loadedDocs st)(fid \<mapsto> srcDoc), newPdf := doc\<rparr>)"
  by (simp add: cache_ok_def source_doc_def)

lemma cache_ok_hit:
  "cache_ok lib sourceFiles st \<Longrightarrow> loadedDocs st (fileId ep) = Some d \<Longrightarrow> has_source sourceFiles ep"
  by (auto simp: cache_ok_def has_source_def source_doc_def split: option.splits)

lemma build_loop_skips_missing:
  "cache_ok lib sourceFiles st \<Longrightarrow>
   list_all (\<lambda>ep. fileId ep \<notin> set Object_prototype_names)
     (filter (\<lambda>ep. \<not> has_source sourceFiles ep) eps) \<Longrightarrow>
   build_loop lib sourceFiles eps st = build_loop lib sourceFiles (filter (has_source sourceFiles) eps) st"
proof (induction eps arbitrary: st)
  case Nil
  then show ?case by simp
next
  case (Cons ep eps)
  from Cons.prems(2) have rest: "list_all (\<lambda>ep. fileId ep \<notin> set Object_prototype_names)
     (filter (\<lambda>ep. \<not> has_source sourceFiles ep) eps)"
    by (simp split: if_splits)
  note IH = Cons.IH [OF _ rest]
  show ?case
  proof (cases "loadedDocs st (fileId ep)")
    case (Some srcDoc)
    then have hs: "has_source sourceFiles ep"
      using Cons.prems(1) cache_ok_hit by blast
    show ?thesis
      using Cons.prems(1) IH
      by (simp add: lookup_hit [OF Some] hs cache_ok_newPdf split: sum.split)
  next
    case None
    show ?thesis
    proof (cases "fileId ep \<in> set Object_prototype_names")
      case True
      then have hs: "has_source sourceFiles ep"
        using Cons.prems(2) by (auto split: if_splits)
      show ?thesis
        by (simp add: lookup_inherited [OF None True] hs)
    next
      case False
      note miss = lookup_miss [OF None False]
      show ?thesis
      proof (cases "find_source sourceFiles (fileId ep)")
        case n: None
        then show ?thesis
          using Cons.prems(1) IH by (simp add: miss has_source_def)
      next
        case (Some f)
        then have hs: "has_source sourceFiles ep"
          by (simp add: has_source_def)
        show ?thesis
          using Cons.prems(1) IH cache_ok_load [OF Cons.prems(1) Some]
          by (simp add: miss Some hs Let_def split: sum.split option.split)
      qed
    qed
  qed
qed

text \<open>
  Claim C3, as the code has it. The claim says that an editor page whose file id is not
  in the source list makes the compilation fail with a missing-source error. The code
  steps over such a page (\<^verbatim>\<open>if (!sourceFile) continue;\<close>). What holds instead: when no
  editor page without a source file has for its id the name of a member that every
  JavaScript object inherits (\<^verbatim>\<open>constructor\<close>, \<^verbatim>\<open>toString\<close> and the like), the result
  is the result of compiling the list without the pages whose file is not in the source
  list.
\<close>

theorem missing_source_is_skipped:
  assumes "list_all (\<lambda>ep. fileId ep \<notin> set Object_prototype_names)
     (filter (\<lambda>ep. \<not> has_source sourceFiles ep) editorPages)"
  shows "buildPdfFromEditor lib editorPages sourceFiles =
   buildPdfFromEditor lib (filter (has_source sourceFiles) editorPages) sourceFiles"
  by (simp add: buildPdfFromEditor_def buildPdfFromEditor_doc_def
      build_loop_skips_missing [OF cache_ok_init assms, symmetric])

theorem missing_source_is_skipped_witness:
  "list_all (\<lambda>ep. fileId ep \<notin> set Object_prototype_names)
     (filter (\<lambda>ep. \<not> has_source [mk_source ''f1'' [mk_page 11]] ep)
        [mk_editor_page ''f1'' 0 90, mk_editor_page ''gone'' 0 0])
   \<and> filter (\<lambda>ep. \<not> has_source [mk_source ''f1'' [mk_page 11]] ep)
        [mk_editor_page ''f1'' 0 90, mk_editor_page ''gone'' 0 0] = [mk_editor_page ''gone'' 0 0]
   \<and> buildPdfFromEditor ref_lib [mk_editor_page ''f1'' 0 90, mk_editor_page ''gone'' 0 0]
        [mk_source ''f1'' [mk_page 11]] =
      buildPdfFromEditor ref_lib [mk_editor_page ''f1'' 0 90] [mk_source ''f1'' [mk_page 11]]"
proof -
  have f: "filter (\<lambda>ep. \<not> has_source [mk_source ''f1'' [mk_page 11]] ep)
        [mk_editor_page ''f1'' 0 90, mk_editor_page ''gone'' 0 0] = [mk_editor_page ''gone'' 0 0]"
    by (simp add: has_source_def find_source_def mk_source_def mk_editor_page_def)
  have h: "list_all (\<lambda>ep. fileId ep \<notin> set Object_prototype_names)
     (filter (\<lambda>ep. \<not> has_source [mk_source ''f1'' [mk_page 11]] ep)
        [mk_editor_page ''f1'' 0 90, mk_editor_page ''gone'' 0 0])"
    unfolding f by (simp add: mk_editor_page_def Object_prototype_names_def)
  show ?thesis
    using h f missing_source_is_skipped [OF h, where lib = ref_lib]
    by (simp add: has_source_def find_source_def mk_source_def mk_editor_page_def)
qed

text \<open>
  The run against the claim as stated: the second editor page names a file that is not in
  the source list, and the call returns the document made of the first page.
\<close>

theorem missing_source_counterexample:
  "find_source [mk_source ''f1'' [mk_page 11]] ''gone'' = None
   \<and> buildPdfFromEditor ref_lib [mk_editor_page ''f1'' 0 90, mk_editor_page ''gone'' 0 0]
        [mk_source ''f1'' [mk_page 11]] =
      Inr (PdfBuffer [(mk_page 11)\<lparr>Rotate := 90\<rparr>])"
  by (simp add: buildPdfFromEditor_def buildPdfFromEditor_doc_def build_init_def ref_lib_def
      mk_source_def mk_editor_page_def find_source_def build_copy_page_def copyPages_def
      setRotation_def addPage_def create_def mk_page_def save_def lookup_loadedDocs_def
      Object_prototype_names_def Let_def)

lemma build_copy_page_Inr:
  "build_copy_page doc srcDoc ep = Inr doc' \<Longrightarrow>
     originalPageIndex ep < length srcDoc
   \<and> (Rotate (srcDoc ! originalPageIndex ep) + rotation ep) mod 90 = 0
   \<and> doc' = addPage doc ((srcDoc ! originalPageIndex ep)
               \<lparr>Rotate := Rotate (srcDoc ! originalPageIndex ep) + rotation ep\<rparr>)"
  by (auto simp: build_copy_page_def copyPages_def setRotation_def Let_def split: if_splits)

lemma build_loop_pages:
  "cache_ok lib sourceFiles st \<Longrightarrow> build_loop lib sourceFiles eps st = (None, st') \<Longrightarrow>
   map Some (pages (newPdf st')) =
     map Some (pages (newPdf st)) @ map (compiled_page lib sourceFiles) (filter (has_source sourceFiles) eps)"
proof (induction eps arbitrary: st)
  case Nil
  then show ?case by simp
next
  case (Cons ep eps)
  show ?case
  proof (cases "loadedDocs st (fileId ep)")
    case (Some srcDoc)
    then have hs: "has_source sourceFiles ep"
      using Cons.prems(1) cache_ok_hit by blast
    have sd: "source_doc lib sourceFiles (fileId ep) = Some srcDoc"
      using Cons.prems(1) Some by (simp add: cache_ok_def)
    from Cons.prems(2) obtain doc where
      cp: "build_copy_page (newPdf st) srcDoc ep = Inr doc"
      and rest: "build_loop lib sourceFiles eps (st\<lparr>newPdf := doc\<rparr>) = (None, st')"
      by (auto simp: lookup_hit [OF Some] split: sum.splits)
    have pg: "pages doc = pages (newPdf st) @ [(srcDoc ! originalPageIndex ep)
               \<lparr>Rotate := Rotate (srcDoc ! originalPageIndex ep) + rotation ep\<rparr>]"
      and ix: "originalPageIndex ep < length srcDoc"
      using build_copy_page_Inr [OF cp] by (simp_all add: addPage_def)
    have c: "compiled_page lib sourceFiles ep = Some ((srcDoc ! originalPageIndex ep)
               \<lparr>Rotate := Rotate (srcDoc ! originalPageIndex ep) + rotation ep\<rparr>)"
      by (simp add: compiled_page_def editor_source_page_def sd ix)
    from Cons.IH [OF _ rest] Cons.prems(1)
    show ?thesis
      by (simp add: cache_ok_newPdf hs pg c)
  next
    case None
    show ?thesis
    proof (cases "fileId ep \<in> set Object_prototype_names")
      case True
      with Cons.prems(2) show ?thesis
        by (simp add: lookup_inherited [OF None True])
    next
      case False
      note miss = lookup_miss [OF None False]
      show ?thesis
      proof (cases "find_source sourceFiles (fileId ep)")
        case n: None
        then show ?thesis
          using Cons.prems Cons.IH by (simp add: miss has_source_def)
      next
        case (Some f)
        then have hs: "has_source sourceFiles ep"
          by (simp add: has_source_def)
        from Cons.prems(2) obtain srcDoc doc where
          ld: "load lib (bytes (file_of f)) = Some srcDoc"
          and cp: "build_copy_page (newPdf st) srcDoc ep = Inr doc"
          and rest: "build_loop lib sourceFiles eps
              (st\<lparr>parseLog := parseLog st @ [fileId ep],
                  loadedDocs := (loadedDocs st)(fileId ep \<mapsto> srcDoc), newPdf := doc\<rparr>) = (None, st')"
          by (auto simp: miss Some Let_def split: sum.splits option.splits)
        have sd: "source_doc lib sourceFiles (fileId ep) = Some srcDoc"
          by (simp add: source_doc_def Some ld)
        have pg: "pages doc = pages (newPdf st) @ [(srcDoc ! originalPageIndex ep)
                 \<lparr>Rotate := Rotate (srcDoc ! originalPageIndex ep) + rotation ep\<rparr>]"
          and ix: "originalPageIndex ep < length srcDoc"
          using build_copy_page_Inr [OF cp] by (simp_all add: addPage_def)
        have c: "compiled_page lib sourceFiles ep = Some ((srcDoc ! originalPageIndex ep)
                 \<lparr>Rotate := Rotate (srcDoc ! originalPageIndex ep) + rotation ep\<rparr>)"
          by (simp add: compiled_page_def editor_source_page_def sd ix)
        from Cons.IH [OF cache_ok_load [OF Cons.prems(1) Some ld] rest]
        show ?thesis
          by (simp add: hs pg c)
      qed
    qed
  qed
qed

lemma build_loop_rotations:
  "build_loop lib sourceFiles eps st = (None, st') \<Longrightarrow>
   list_all (\<lambda>pg. Rotate pg mod 90 = 0) (pages (newPdf st)) \<Longrightarrow>
   list_all (\<lambda>pg. Rotate pg mod 90 = 0) (pages (newPdf st'))"
proof (induction eps arbitrary: st)
  case Nil
  then show ?case by simp
next
  case (Cons ep eps)
  have step: "list_all (\<lambda>pg. Rotate pg mod 90 = 0) (pages doc)"
    if "build_copy_page (newPdf st) srcDoc ep = Inr doc" for srcDoc doc
    using build_copy_page_Inr [OF that] Cons.prems(2) by (simp add: addPage_def)
  show ?case
  proof (cases "loadedDocs st (fileId ep)")
    case (Some srcDoc)
    from Cons.prems(1) obtain doc where
      cp: "build_copy_page (newPdf st) srcDoc ep = Inr doc"
      and rest: "build_loop lib sourceFiles eps (st\<lparr>newPdf := doc\<rparr>) = (None, st')"
      by (auto simp: lookup_hit [OF Some] split: sum.splits)
    show ?thesis
      using Cons.IH [OF rest] step [OF cp] by simp
  next
    case None
    show ?thesis
    proof (cases "fileId ep \<in> set Object_prototype_names")
      case True
      with Cons.prems(1) show ?thesis
        by (simp add: lookup_inherited [OF None True])
    next
      case False
      note miss = lookup_miss [OF None False]
      show ?thesis
      proof (cases "find_source sourceFiles (fileId ep)")
        case n: None
        then show ?thesis
          using Cons.prems Cons.IH by (simp add: miss)
      next
        case (Some f)
        from Cons.prems(1) obtain srcDoc doc where
          cp: "build_copy_page (newPdf st) srcDoc ep = Inr doc"
          and rest: "build_loop lib sourceFiles eps
              (st\<lparr>parseLog := parseLog st @ [fileId ep],
                  loadedDocs := (loadedDocs st)(fileId ep \<mapsto> srcDoc), newPdf := doc\<rparr>) = (None, st')"
          by (auto simp: miss Some Let_def split: sum.splits option.splits)
        show ?thesis
          using Cons.IH [OF rest] step [OF cp] by simp
      qed
    qed
  qed
qed

text \<open>
  Claim C5, as the code has it. The claim says that the rotation stored on a compiled
  page is \<open>(currentRotation + rotationDelta) mod 360\<close>. The code stores the sum itself
  (\<^verbatim>\<open>setRotation(degrees(currentRotation + page.rotation))\<close>). What holds instead: when the compilation succeeds, the output is, in editor order, the source page
  of every editor page that has a source file, with rotation \<open>currentRotation +
  rotationDelta\<close>, not reduced; every stored rotation is a multiple of 90.
\<close>

theorem compiled_rotation_is_sum:
  assumes "buildPdfFromEditor_doc lib editorPages sourceFiles = Inr doc"
  shows "buildPdfFromEditor lib editorPages sourceFiles = Inr (save lib doc)
       \<and> map Some (pages doc) =
           map (\<lambda>ep. map_option (\<lambda>pg. pg\<lparr>Rotate := Rotate pg + rotation ep\<rparr>)
                        (editor_source_page lib sourceFiles ep))
             (filter (has_source sourceFiles) editorPages)
       \<and> list_all (\<lambda>pg. Rotate pg mod 90 = 0) (pages doc)"
proof -
  from assms obtain st where
    st: "build_loop lib sourceFiles editorPages build_init = (None, st)" and d: "doc = newPdf st"
    by (auto simp: buildPdfFromEditor_doc_def split: prod.splits option.splits)
  have "map Some (pages doc) = map (compiled_page lib sourceFiles) (filter (has_source sourceFiles) editorPages)"
    using build_loop_pages [OF cache_ok_init st] by (simp add: d build_init_def pages_create)
  moreover have "list_all (\<lambda>pg. Rotate pg mod 90 = 0) (pages doc)"
    using build_loop_rotations [OF st] by (simp add: d build_init_def pages_create)
  ultimately show ?thesis
    using assms by (simp add: buildPdfFromEditor_def compiled_page_def [abs_def])
qed

theorem compiled_rotation_is_sum_witness:
  "buildPdfFromEditor_doc ref_lib [mk_editor_page ''f1'' 0 180, mk_editor_page ''f1'' 1 90]
        [mk_source ''f1'' [(mk_page 11)\<lparr>Rotate := 270\<rparr>, mk_page 12]] =
      Inr (create\<lparr>pages := [(mk_page 11)\<lparr>Rotate := 450\<rparr>, (mk_page 12)\<lparr>Rotate := 90\<rparr>]\<rparr>)
   \<and> buildPdfFromEditor ref_lib [mk_editor_page ''f1'' 0 180, mk_editor_page ''f1'' 1 90]
        [mk_source ''f1'' [(mk_page 11)\<lparr>Rotate := 270\<rparr>, mk_page 12]] =
      Inr (PdfBuffer [(mk_page 11)\<lparr>Rotate := 450\<rparr>, (mk_page 12)\<lparr>Rotate := 90\<rparr>])
   \<and> list_all (\<lambda>pg. Rotate pg mod 90 = 0) [(mk_page 11)\<lparr>Rotate := 450\<rparr>, (mk_page 12)\<lparr>Rotate := 90\<rparr>]"
proof -
  have h: "buildPdfFromEditor_doc ref_lib [mk_editor_page ''f1'' 0 180, mk_editor_page ''f1'' 1 90]
        [mk_source ''f1'' [(mk_page 11)\<lparr>Rotate := 270\<rparr>, mk_page 12]] =
      Inr (create\<lparr>pages := [(mk_page 11)\<lparr>Rotate := 450\<rparr>, (mk_page 12)\<lparr>Rotate := 90\<rparr>]\<rparr>)"
    by (simp add: buildPdfFromEditor_def buildPdfFromEditor_doc_def build_init_def ref_lib_def
      mk_source_def mk_editor_page_def find_source_def build_copy_page_def copyPages_def
      setRotation_def addPage_def create_def mk_page_def save_def lookup_loadedDocs_def
      Object_prototype_names_def Let_def)
  show ?thesis
    using h compiled_rotation_is_sum [OF h]
    by (simp add: ref_lib_def save_def)
qed

text \<open>
  The run against the claim as stated: a source page of rotation 270 and an editor
  rotation of 180 give a stored rotation of 450, which is not \<open>(270 + 180) mod 360\<close>.
\<close>

theorem rotation_not_normalized_counterexample:
  "buildPdfFromEditor ref_lib [mk_editor_page ''f1'' 0 180]
        [mk_source ''f1'' [(mk_page 11)\<lparr>Rotate := 270\<rparr>]] =
      Inr (PdfBuffer [(mk_page 11)\<lparr>Rotate := 450\<rparr>])
   \<and> (450 :: int) \<noteq> (270 + 180) mod 360"
  by (simp add: buildPdfFromEditor_def buildPdfFromEditor_doc_def build_init_def ref_lib_def
      mk_source_def mk_editor_page_def find_source_def build_copy_page_def copyPages_def
      setRotation_def addPage_def create_def mk_page_def save_def lookup_loadedDocs_def
      Object_prototype_names_def Let_def)

lemma build_loop_parseLog:
  "distinct (parseLog st) \<Longrightarrow> set (parseLog st) \<subseteq> dom (loadedDocs st) \<Longrightarrow>
   distinct (parseLog (snd (build_loop lib sourceFiles eps st)))
   \<and> set (parseLog (snd (build_loop lib sourceFiles eps st)))
       \<subseteq> set (parseLog st) \<union> fileId ` set (filter (has_source sourceFiles) eps)"
proof (induction eps arbitrary: st)
  case Nil
  then show ?case by simp
next
  case (Cons ep eps)
  show ?case
  proof (cases "loadedDocs st (fileId ep)")
    case (Some srcDoc)
    note hit = lookup_hit [OF Some]
    show ?thesis
    proof (cases "build_copy_page (newPdf st) srcDoc ep")
      case (Inl e)
      then show ?thesis
        using Cons.prems by (simp add: hit)
    next
      case (Inr doc)
      have "distinct (parseLog (st\<lparr>newPdf := doc\<rparr>))"
        "set (parseLog (st\<lparr>newPdf := doc\<rparr>)) \<subseteq> dom (loadedDocs (st\<lparr>newPdf := doc\<rparr>))"
        using Cons.prems by simp_all
      from Cons.IH [OF this] show ?thesis
        by (auto simp: hit Inr)
    qed
  next
    case None
    then have fresh: "fileId ep \<notin> set (parseLog st)"
      using Cons.prems(2) by (auto simp: dom_def)
    show ?thesis
    proof (cases "fileId ep \<in> set Object_prototype_names")
      case True
      show ?thesis
        using Cons.prems by (simp add: lookup_inherited [OF None True])
    next
      case False
      note miss = lookup_miss [OF None False]
      show ?thesis
      proof (cases "find_source sourceFiles (fileId ep)")
        case n: None
        from Cons.IH [OF Cons.prems] show ?thesis
          by (auto simp: miss n)
      next
        case (Some f)
        then have hs: "has_source sourceFiles ep"
          by (simp add: has_source_def)
        show ?thesis
        proof (cases "load lib (bytes (file_of f))")
          case l: None
          then show ?thesis
            using Cons.prems fresh hs by (auto simp: miss Some Let_def)
        next
          case l: (Some srcDoc)
          let ?st2 = "st\<lparr>parseLog := parseLog st @ [fileId ep],
                  loadedDocs := (loadedDocs st)(fileId ep \<mapsto> srcDoc)\<rparr>"
          show ?thesis
          proof (cases "build_copy_page (newPdf st) srcDoc ep")
            case (Inl e)
            then show ?thesis
              using Cons.prems fresh hs by (auto simp: miss Some l Let_def)
          next
            case (Inr doc)
            have "distinct (parseLog (?st2\<lparr>newPdf := doc\<rparr>))"
              "set (parseLog (?st2\<lparr>newPdf := doc\<rparr>)) \<subseteq> dom (loadedDocs (?st2\<lparr>newPdf := doc\<rparr>))"
              using Cons.prems fresh by auto
            from Cons.IH [OF this] show ?thesis
              using hs by (auto simp: miss Some l Inr Let_def)
          qed
        qed
      qed
    qed
  qed
qed

text \<open>
  Claim C8. In one compilation \<^verbatim>\<open>PDFDocument.load\<close> is called at most once for each
  file id, whatever the number of editor pages that refer to it, and only for ids of
  editor pages that have a source file. The instance that follows has five editor pages
  on one file and one call.
\<close>

theorem source_parsed_at_most_once:
  "distinct (parseLog (snd (build_loop lib sourceFiles editorPages build_init)))
   \<and> set (parseLog (snd (build_loop lib sourceFiles editorPages build_init)))
       \<subseteq> fileId ` set (filter (has_source sourceFiles) editorPages)"
  using build_loop_parseLog [of build_init lib sourceFiles editorPages]
  by (simp add: build_init_def)

theorem source_parsed_at_most_once_witness:
  "distinct (parseLog (snd (build_loop ref_lib [mk_source ''f1'' (map mk_page [11, 12, 13, 14, 15])]
       (map (\<lambda>i. mk_editor_page ''f1'' i 0) [4, 0, 0, 2, 3]) build_init)))
   \<and> parseLog (snd (build_loop ref_lib [mk_source ''f1'' (map mk_page [11, 12, 13, 14, 15])]
       (map (\<lambda>i. mk_editor_page ''f1'' i 0) [4, 0, 0, 2, 3]) build_init)) = [''f1'']"
proof -
  have "parseLog (snd (build_loop ref_lib [mk_source ''f1'' (map mk_page [11, 12, 13, 14, 15])]
       (map (\<lambda>i. mk_editor_page ''f1'' i 0) [4, 0, 0, 2, 3]) build_init)) = [''f1'']"
    by (simp add: build_init_def ref_lib_def mk_source_def mk_editor_page_def find_source_def
        build_copy_page_def copyPages_def setRotation_def addPage_def create_def
        lookup_loadedDocs_def Object_prototype_names_def Let_def)
  then show ?thesis
    using source_parsed_at_most_once [where lib = ref_lib
        and sourceFiles = "[mk_source ''f1'' (map mk_page [11, 12, 13, 14, 15])]"
        and editorPages = "map (\<lambda>i. mk_editor_page ''f1'' i 0) [4, 0, 0, 2, 3]"]
    by simp
qed

end
